theory Spec2Isabelle
  imports Main
begin

section \<open>The authorization endpoint of \<open>mcp.server.auth.handlers.authorize\<close>\<close>

text \<open>
  A shallow embedding of \<open>src/mcp/server/auth/handlers/authorize.py\<close>.

  Python strings are byte strings here (\<open>string\<close>, the UTF-8 encoding of the text).
  Exceptions are values: every function that can raise returns \<open>exn + 'a\<close>, with
  \<open>Inl\<close> the exception. The local variables that the closure \<open>error_response\<close>
  shares with \<open>handle\<close> through \<open>nonlocal\<close> are a record that is passed in and
  returned updated, also when an exception is raised. The provider is an external,
  stateful collaborator: its two coroutines \<open>get_client\<close> and \<open>authorize\<close> take
  and return a provider state of an arbitrary type \<open>'w\<close>, so that two calls with the
  same argument may answer differently.
\<close>

subsection \<open>Data model\<close>

text \<open>
  A value of a \<open>QueryParams\<close> or \<open>FormData\<close> multi-dict as \<open>get\<close>, \<open>in\<close> and
  the mapping protocol see it: a string, or (form data only) an uploaded file.
\<close>

datatype pvalue = PStr string | PUpload

type_synonym params = "string \<rightharpoonup> pvalue"

text \<open>
  Modelled from the spec: the type \<open>AuthorizationErrorCode\<close>, which is declared in
  \<open>mcp.server.auth.provider\<close> and is not among the sources. Its members are the
  error codes that section 6 of the specification lists.
\<close>

datatype AuthorizationErrorCode =
    invalid_request
  | unauthorized_client
  | access_denied
  | unsupported_response_type
  | invalid_scope
  | server_error
  | temporarily_unavailable

text \<open>One entry of \<open>ValidationError.errors()\<close>: the keys \<open>loc\<close> and \<open>type\<close>.\<close>

datatype ErrorDetails = ErrorDetails (loc: "string list") (etype: string)

datatype exn =
    ValidationError "ErrorDetails list"
  | InvalidRedirectUriError string
  | InvalidScopeError string
  | AuthorizeError AuthorizationErrorCode "string option"
  | OtherException string

text \<open>
  \<open>class AuthorizationRequest(BaseModel)\<close>. A validated URL (\<open>AnyHttpUrl\<close>,
  \<open>AnyUrl\<close>) is represented by its string form \<open>str(url)\<close>.
\<close>

record AuthorizationRequest =
  ar_client_id :: string
  ar_redirect_uri :: "string option"
  ar_response_type :: string
  ar_code_challenge :: string
  ar_code_challenge_method :: string
  ar_state :: "string option"
  ar_scope :: "string option"

text \<open>\<open>class AuthorizationErrorResponse(BaseModel)\<close>.\<close>

record AuthorizationErrorResponse =
  er_error :: AuthorizationErrorCode
  er_error_description :: "string option"
  er_error_uri :: "string option"
  er_state :: "string option"

text \<open>\<open>AuthorizationParams\<close>, as \<open>handle\<close> constructs it.\<close>

record AuthorizationParams =
  ap_state :: "string option"
  ap_scopes :: "string list"
  ap_code_challenge :: string
  ap_redirect_uri :: string

text \<open>
  The two response classes, with the arguments their constructors are given.
\<close>

datatype response =
    RedirectResponse (url: string) (status_code: nat) (headers: "(string \<times> string) list")
  | PydanticJSONResponse (status_code: nat) (content: AuthorizationErrorResponse)
      (headers: "(string \<times> string) list")

text \<open>
  What \<open>handle\<close> reads of the \<open>Request\<close>: the method, the query parameters, and the
  outcome of awaiting \<open>request.form()\<close>, which may raise. The field
  \<open>http_method\<close> is \<open>request.method\<close>.
\<close>

record request =
  http_method :: string
  query_params :: params
  form :: "exn + params"

text \<open>
  The value of the local variable \<open>client\<close>. Besides \<open>None\<close> and a client object it
  can hold the empty string, because \<open>client_id and await ...get_client(client_id)\<close>
  evaluates to \<open>client_id\<close> itself when that is falsy.
\<close>

datatype 'c client_var = CNone | CEmptyStr | CClient 'c

text \<open>The variables \<open>state\<close>, \<open>redirect_uri\<close>, \<open>client\<close> and \<open>params\<close> of \<open>handle\<close>.\<close>

record 'c locals =
  state :: "string option"
  redirect_uri :: "string option"
  client :: "'c client_var"
  params :: "params option"

text \<open>
  The collaborators: the provider's coroutines, the two validation methods of a client
  object (pure functions of the client), the URL validation of pydantic's
  \<open>AnyHttpUrl\<close> (returning \<open>str\<close> of the validated URL), and
  \<open>stringify_pydantic_error\<close> of \<open>mcp.server.auth.errors\<close>.
\<close>

record ('c, 'w) provider =
  get_client :: "'w \<Rightarrow> string \<Rightarrow> (exn + 'c option) \<times> 'w"
  authorize :: "'w \<Rightarrow> 'c \<Rightarrow> AuthorizationParams \<Rightarrow> (exn + string) \<times> 'w"
  validate_redirect_uri :: "'c \<Rightarrow> string option \<Rightarrow> exn + string"
  validate_scope :: "'c \<Rightarrow> string option \<Rightarrow> exn + string list"
  any_http_url :: "string \<Rightarrow> string option"
  stringify_pydantic_error :: "ErrorDetails list \<Rightarrow> string"

subsection \<open>Parameter extraction and schema validation\<close>

definition best_effort_extract_string :: "string \<Rightarrow> params option \<Rightarrow> string option" where
  "best_effort_extract_string key ps =
     (case ps of
        None \<Rightarrow> None
      | Some m \<Rightarrow> (case m key of Some (PStr v) \<Rightarrow> Some v | Some PUpload \<Rightarrow> None | None \<Rightarrow> None))"

text \<open>
  The field validators of \<open>AuthorizationRequest.model_validate\<close>, one for each kind
  of annotation the class uses. Each returns the field's value or the error entries for
  the field, with pydantic's error types.
\<close>

definition required_str :: "string \<Rightarrow> params \<Rightarrow> ErrorDetails list + string" where
  "required_str k ps =
     (case ps k of
        None \<Rightarrow> Inl [ErrorDetails [k] ''missing'']
      | Some (PStr v) \<Rightarrow> Inr v
      | Some PUpload \<Rightarrow> Inl [ErrorDetails [k] ''string_type''])"

definition optional_str :: "string \<Rightarrow> params \<Rightarrow> ErrorDetails list + string option" where
  "optional_str k ps =
     (case ps k of
        None \<Rightarrow> Inr None
      | Some (PStr v) \<Rightarrow> Inr (Some v)
      | Some PUpload \<Rightarrow> Inl [ErrorDetails [k] ''string_type''])"

definition literal_str ::
  "string \<Rightarrow> string \<Rightarrow> string option \<Rightarrow> params \<Rightarrow> ErrorDetails list + string" where
  "literal_str k lit dflt ps =
     (case ps k of
        None \<Rightarrow> (case dflt of None \<Rightarrow> Inl [ErrorDetails [k] ''missing''] | Some d \<Rightarrow> Inr d)
      | Some (PStr v) \<Rightarrow> if v = lit then Inr v else Inl [ErrorDetails [k] ''literal_error'']
      | Some PUpload \<Rightarrow> Inl [ErrorDetails [k] ''literal_error''])"

definition optional_http_url ::
  "('c, 'w) provider \<Rightarrow> string \<Rightarrow> params \<Rightarrow> ErrorDetails list + string option" where
  "optional_http_url env k ps =
     (case ps k of
        None \<Rightarrow> Inr None
      | Some (PStr v) \<Rightarrow>
          (case any_http_url env v of
             None \<Rightarrow> Inl [ErrorDetails [k] ''url_parsing'']
           | Some u \<Rightarrow> Inr (Some u))
      | Some PUpload \<Rightarrow> Inl [ErrorDetails [k] ''url_type''])"

definition errors_of :: "ErrorDetails list + 'a \<Rightarrow> ErrorDetails list" where
  "errors_of r = (case r of Inl es \<Rightarrow> es | Inr _ \<Rightarrow> [])"

text \<open>
  \<open>AuthorizationRequest.model_validate(params)\<close>: every field is validated, in the order
  of declaration, and all errors are collected.
\<close>

definition model_validate ::
  "('c, 'w) provider \<Rightarrow> params \<Rightarrow> ErrorDetails list + AuthorizationRequest" where
  "model_validate env ps =
     (case (required_str ''client_id'' ps,
            optional_http_url env ''redirect_uri'' ps,
            literal_str ''response_type'' ''code'' None ps,
            required_str ''code_challenge'' ps,
            literal_str ''code_challenge_method'' ''S256'' (Some ''S256'') ps,
            optional_str ''state'' ps,
            optional_str ''scope'' ps) of
        (Inr cid, Inr ru, Inr rt, Inr cc, Inr ccm, Inr st, Inr sc) \<Rightarrow>
          Inr \<lparr>ar_client_id = cid, ar_redirect_uri = ru, ar_response_type = rt,
               ar_code_challenge = cc, ar_code_challenge_method = ccm,
               ar_state = st, ar_scope = sc\<rparr>
      | (r1, r2, r3, r4, r5, r6, r7) \<Rightarrow>
          Inl (errors_of r1 @ errors_of r2 @ errors_of r3 @ errors_of r4 @
               errors_of r5 @ errors_of r6 @ errors_of r7))"

text \<open>
  \<open>AnyHttpUrlModel.model_validate(value).root\<close>: raises \<open>ValidationError\<close> unless the
  value is a string that is a valid HTTP URL.
\<close>

definition AnyHttpUrlModel_validate ::
  "('c, 'w) provider \<Rightarrow> string option \<Rightarrow> exn + string" where
  "AnyHttpUrlModel_validate env v =
     (case v of
        None \<Rightarrow> Inl (ValidationError [ErrorDetails [] ''url_type''])
      | Some s \<Rightarrow>
          (case any_http_url env s of
             None \<Rightarrow> Inl (ValidationError [ErrorDetails [] ''url_parsing''])
           | Some u \<Rightarrow> Inr u))"

text \<open>
  The loop of \<open>handle\<close> over \<open>validation_error.errors()\<close>: the error code is
  \<open>unsupported_response_type\<close> as soon as one entry is a literal mismatch at
  \<open>response_type\<close>, and \<open>invalid_request\<close> otherwise.
\<close>

fun error_code_of :: "ErrorDetails list \<Rightarrow> AuthorizationErrorCode" where
  "error_code_of [] = invalid_request"
| "error_code_of (e # es) =
     (if loc e = [''response_type''] \<and> etype e = ''literal_error''
      then unsupported_response_type
      else error_code_of es)"

subsection \<open>Composing a redirect URI\<close>

text \<open>
  The functions of Python's \<open>urllib.parse\<close> that \<open>create_error_redirect\<close> calls,
  after CPython 3.12. They are library code; the checks of \<open>urlsplit\<close> that raise
  \<open>ValueError\<close> on an unbalanced bracket in the network location are left out, the
  argument being \<open>str\<close> of a validated URL.
\<close>

definition is_alpha :: "char \<Rightarrow> bool" where
  "is_alpha c = (let n = (of_char c :: nat) in (65 \<le> n \<and> n \<le> 90) \<or> (97 \<le> n \<and> n \<le> 122))"

definition is_digit :: "char \<Rightarrow> bool" where
  "is_digit c = (let n = (of_char c :: nat) in 48 \<le> n \<and> n \<le> 57)"

definition scheme_char :: "char \<Rightarrow> bool" where
  "scheme_char c = (is_alpha c \<or> is_digit c \<or> c \<in> set ''+-.'')"

definition lower :: "char \<Rightarrow> char" where
  "lower c = (let n = (of_char c :: nat) in if 65 \<le> n \<and> n \<le> 90 then char_of (n + 32) else c)"

definition uses_params :: "string list" where
  "uses_params = [[], ''ftp'', ''hdl'', ''prospero'', ''http'', ''imap'', ''https'',
     ''shttp'', ''rtsp'', ''rtsps'', ''rtspu'', ''sip'', ''sips'', ''mms'', ''sftp'', ''tel'']"

definition uses_netloc :: "string list" where
  "uses_netloc = [[], ''ftp'', ''http'', ''gopher'', ''nntp'', ''telnet'', ''imap'',
     ''wais'', ''file'', ''mms'', ''https'', ''shttp'', ''snews'', ''prospero'', ''rtsp'',
     ''rtsps'', ''rtspu'', ''rsync'', ''svn'', ''svn+ssh'', ''sftp'', ''nfs'', ''git'',
     ''git+ssh'', ''ws'', ''wss'', ''itms-services'']"

text \<open>\<open>s.split(c, 1)\<close> for a string that contains \<open>c\<close>, and the pair of \<open>s\<close> and the empty string otherwise.\<close>

definition split_once :: "char \<Rightarrow> string \<Rightarrow> string \<times> string" where
  "split_once c s = (takeWhile (\<lambda>x. x \<noteq> c) s, drop 1 (dropWhile (\<lambda>x. x \<noteq> c) s))"

record ParseResult =
  scheme :: string
  netloc :: string
  path :: string
  pparams :: string
  query :: string
  fragment :: string

text \<open>
  \<open>urlsplit\<close>: leading C0 control characters and spaces are stripped, tab, carriage
  return and line feed are removed; then the scheme, the network location, the fragment
  and the query are cut off, in this order.
\<close>

definition split_scheme :: "string \<Rightarrow> string \<times> string" where
  "split_scheme u =
     (let pre = takeWhile (\<lambda>x. x \<noteq> CHR '':'') u in
      if length pre < length u \<and> pre \<noteq> [] \<and> is_alpha (hd pre) \<and> list_all scheme_char pre
      then (map lower pre, drop (Suc (length pre)) u)
      else ([], u))"

definition split_netloc :: "string \<Rightarrow> string \<times> string" where
  "split_netloc u =
     (if take 2 u = ''//''
      then (takeWhile (\<lambda>x. x \<notin> set ''/?#'') (drop 2 u),
            dropWhile (\<lambda>x. x \<notin> set ''/?#'') (drop 2 u))
      else ([], u))"

text \<open>\<open>_splitparams\<close>, applied by \<open>urlparse\<close> to the path when it contains \<open>;\<close>.\<close>

definition splitparams :: "string \<Rightarrow> string \<times> string" where
  "splitparams u =
     (if CHR ''/'' \<in> set u
      then (let seg = rev (takeWhile (\<lambda>x. x \<noteq> CHR ''/'') (rev u));
                dir = take (length u - length seg) u
            in if CHR '';'' \<in> set seg
               then (dir @ fst (split_once CHR '';'' seg), snd (split_once CHR '';'' seg))
               else (u, []))
      else split_once CHR '';'' u)"

definition urlparse :: "string \<Rightarrow> ParseResult" where
  "urlparse url0 =
     (let url1 = dropWhile (\<lambda>x. (of_char x :: nat) \<le> 32) url0;
          url2 = filter (\<lambda>x. (of_char x :: nat) \<notin> {9, 10, 13}) url1;
          (sch, url3) = split_scheme url2;
          (nl, url4) = split_netloc url3;
          (url5, frag) = split_once CHR ''#'' url4;
          (url6, q) = split_once CHR ''?'' url5;
          (p, ps) = (if sch \<in> set uses_params \<and> CHR '';'' \<in> set url6
                     then splitparams url6 else (url6, []))
      in \<lparr>scheme = sch, netloc = nl, path = p, pparams = ps, query = q, fragment = frag\<rparr>)"

text \<open>
  \<open>urlunsplit\<close> of the five components scheme, network location, path, query and
  fragment, and \<open>urlunparse\<close>, which joins the path parameters to the path and
  calls it.
\<close>

definition urlunsplit :: "string \<Rightarrow> string \<Rightarrow> string \<Rightarrow> string \<Rightarrow> string \<Rightarrow> string" where
  "urlunsplit sch nl url1 q frag =
     (let slashed = (if url1 \<noteq> [] \<and> take 1 url1 \<noteq> ''/'' then ''/'' @ url1 else url1);
          url2 = (if nl \<noteq> [] then ''//'' @ nl @ slashed
                  else if sch \<noteq> [] \<and> sch \<in> set uses_netloc \<and> take 2 url1 \<noteq> ''//''
                  then ''//'' @ slashed
                  else url1);
          url3 = (if sch \<noteq> [] then sch @ '':'' @ url2 else url2);
          url4 = (if q \<noteq> [] then url3 @ ''?'' @ q else url3)
      in if frag \<noteq> [] then url4 @ ''#'' @ frag else url4)"

definition urlunparse :: "ParseResult \<Rightarrow> string" where
  "urlunparse r =
     urlunsplit (scheme r) (netloc r)
       (if pparams r \<noteq> [] then path r @ '';'' @ pparams r else path r)
       (query r) (fragment r)"

text \<open>
  \<open>urlencode\<close> of a dictionary with string keys and values: each key and value goes
  through \<open>quote_plus\<close>, which keeps letters, digits and \<open>_.-~\<close>, writes a space as
  \<open>+\<close> and every other byte as \<open>%XX\<close>.
\<close>

definition hex_digit :: "nat \<Rightarrow> char" where
  "hex_digit n = ''0123456789ABCDEF'' ! (n mod 16)"

definition quote_byte :: "char \<Rightarrow> string" where
  "quote_byte c =
     (if is_alpha c \<or> is_digit c \<or> c \<in> set ''_.-~'' then [c]
      else if c = CHR '' '' then ''+''
      else [CHR ''%'', hex_digit ((of_char c :: nat) div 16), hex_digit (of_char c :: nat)])"

definition quote_plus :: "string \<Rightarrow> string" where
  "quote_plus s = concat (map quote_byte s)"

fun join_amp :: "string list \<Rightarrow> string" where
  "join_amp [] = []"
| "join_amp [x] = x"
| "join_amp (x # y # ys) = x @ ''&'' @ join_amp (y # ys)"

definition urlencode :: "(string \<times> string) list \<Rightarrow> string" where
  "urlencode kvs = join_amp (map (\<lambda>(k, v). quote_plus k @ ''='' @ quote_plus v) kvs)"

text \<open>The string of an error code, as the \<open>Literal\<close> type holds it.\<close>

fun code_str :: "AuthorizationErrorCode \<Rightarrow> string" where
  "code_str invalid_request = ''invalid_request''"
| "code_str unauthorized_client = ''unauthorized_client''"
| "code_str access_denied = ''access_denied''"
| "code_str unsupported_response_type = ''unsupported_response_type''"
| "code_str invalid_scope = ''invalid_scope''"
| "code_str server_error = ''server_error''"
| "code_str temporarily_unavailable = ''temporarily_unavailable''"

text \<open>
  \<open>error_resp.model_dump(exclude_none=True)\<close>: the fields that are not \<open>None\<close>, in
  the order of declaration.
\<close>

definition opt_field :: "string \<Rightarrow> string option \<Rightarrow> (string \<times> string) list" where
  "opt_field k v = (case v of None \<Rightarrow> [] | Some x \<Rightarrow> [(k, x)])"

definition model_dump :: "AuthorizationErrorResponse \<Rightarrow> (string \<times> string) list" where
  "model_dump r =
     [(''error'', code_str (er_error r))] @
     opt_field ''error_description'' (er_error_description r) @
     opt_field ''error_uri'' (er_error_uri r) @
     opt_field ''state'' (er_state r)"

text \<open>
  The second argument of \<open>create_error_redirect\<close>: an \<open>AuthorizationErrorResponse\<close>,
  an \<open>OAuthError\<close> (with its \<open>error_code\<close> and its \<open>str\<close>), or another exception.
\<close>

datatype error_arg =
    ErrorResponse AuthorizationErrorResponse
  | OAuthError string string
  | UnknownException

definition create_error_redirect :: "string \<Rightarrow> error_arg \<Rightarrow> string" where
  "create_error_redirect uri error =
     (let parsed_uri = urlparse uri;
          query_params =
            (case error of
               ErrorResponse r \<Rightarrow> model_dump r
             | OAuthError code msg \<Rightarrow> [(''error'', code), (''error_description'', msg)]
             | UnknownException \<Rightarrow>
                 [(''error'', ''server_error''),
                  (''error_description'', ''An unknown error occurred'')]);
          new_query = urlencode query_params;
          new_query' = (if query parsed_uri \<noteq> [] then query parsed_uri @ ''&'' @ new_query
                        else new_query)
      in urlunparse (parsed_uri\<lparr>query := new_query'\<rparr>))"

text \<open>
  Modelled from the spec: \<open>construct_redirect_uri\<close> of \<open>mcp.server.auth.provider\<close>,
  which \<open>error_response\<close> calls and which is not among the sources. The specification's
  Redirect URI Composer (4.4): parse the base URI, append the new encoded fields after
  the existing query string with \<open>&\<close>, keeping that query string, and reassemble.
\<close>

definition construct_redirect_uri :: "string \<Rightarrow> (string \<times> string) list \<Rightarrow> string" where
  "construct_redirect_uri redirect_uri_base kwargs =
     (let parsed_uri = urlparse redirect_uri_base;
          new_query = urlencode kwargs
      in urlunparse (parsed_uri\<lparr>query :=
           (if query parsed_uri \<noteq> [] then query parsed_uri @ ''&'' @ new_query
            else new_query)\<rparr>))"

subsection \<open>The error router \<open>error_response\<close>\<close>

text \<open>
  The closure \<open>error_response\<close> of \<open>handle\<close>, in its three recovery steps and the
  emission. Each step takes the local variables and returns them updated; a step that
  raises returns the exception with the variables as they are at that moment.

  First step: \<open>if client is None and attempt_load_client\<close>. The assignment
  \<open>client = client_id and await self.provider.get_client(client_id)\<close> keeps a falsy
  \<open>client_id\<close> (\<open>None\<close> or the empty string) without calling the provider; the call
  is not inside any \<open>try\<close>, so an exception of \<open>get_client\<close> leaves the function with
  \<open>client\<close> unassigned.
\<close>

definition load_client ::
  "('c, 'w) provider \<Rightarrow> 'w \<Rightarrow> 'c locals \<Rightarrow> bool \<Rightarrow> (exn + 'c locals) \<times> 'w" where
  "load_client env w vs attempt_load_client =
     (if client vs = CNone \<and> attempt_load_client
      then (case best_effort_extract_string ''client_id'' (params vs) of
              None \<Rightarrow> (Inr (vs\<lparr>client := CNone\<rparr>), w)
            | Some client_id \<Rightarrow>
                if client_id = [] then (Inr (vs\<lparr>client := CEmptyStr\<rparr>), w)
                else (case get_client env w client_id of
                        (Inl e, w') \<Rightarrow> (Inl e, w')
                      | (Inr None, w') \<Rightarrow> (Inr (vs\<lparr>client := CNone\<rparr>), w')
                      | (Inr (Some c), w') \<Rightarrow> (Inr (vs\<lparr>client := CClient c\<rparr>), w')))
      else (Inr vs, w))"

text \<open>
  Second step: \<open>if redirect_uri is None and client\<close>. The raw redirect URI is computed
  before the \<open>try\<close>: \<open>None\<close> when the parameters exist and have no key
  \<open>redirect_uri\<close>, and otherwise the result of \<open>AnyHttpUrlModel.model_validate\<close>,
  whose \<open>ValidationError\<close> is raised outside the \<open>try\<close>. Inside the \<open>try\<close>,
  \<open>client.validate_redirect_uri\<close> is called; \<open>ValidationError\<close> and
  \<open>InvalidRedirectUriError\<close> are passed over, any other exception is raised.
\<close>

definition raw_redirect_uri :: "('c, 'w) provider \<Rightarrow> params option \<Rightarrow> exn + string option" where
  "raw_redirect_uri env ps =
     (if (case ps of None \<Rightarrow> False | Some m \<Rightarrow> m ''redirect_uri'' = None) then Inr None
      else (case AnyHttpUrlModel_validate env (best_effort_extract_string ''redirect_uri'' ps) of
              Inl e \<Rightarrow> Inl e
            | Inr u \<Rightarrow> Inr (Some u)))"

definition load_redirect_uri :: "('c, 'w) provider \<Rightarrow> 'c locals \<Rightarrow> exn + 'c locals" where
  "load_redirect_uri env vs =
     (case (redirect_uri vs, client vs) of
        (None, CClient c) \<Rightarrow>
          (case raw_redirect_uri env (params vs) of
             Inl e \<Rightarrow> Inl e
           | Inr raw \<Rightarrow>
               (case validate_redirect_uri env c raw of
                  Inr u \<Rightarrow> Inr (vs\<lparr>redirect_uri := Some u\<rparr>)
                | Inl (ValidationError es) \<Rightarrow> Inr vs
                | Inl (InvalidRedirectUriError m) \<Rightarrow> Inr vs
                | Inl e \<Rightarrow> Inl e))
      | _ \<Rightarrow> Inr vs)"

text \<open>Third step: \<open>if state is None\<close>.\<close>

definition load_state :: "'c locals \<Rightarrow> 'c locals" where
  "load_state vs =
     (if state vs = None then vs\<lparr>state := best_effort_extract_string ''state'' (params vs)\<rparr>
      else vs)"

text \<open>
  The emission: \<open>if redirect_uri and client\<close> a \<open>RedirectResponse\<close>, else a
  \<open>PydanticJSONResponse\<close>. A URL object and a client object are truthy; \<open>None\<close> and
  the empty string are not.
\<close>

definition emit :: "'c locals \<Rightarrow> AuthorizationErrorResponse \<Rightarrow> response" where
  "emit vs error_resp =
     (case (redirect_uri vs, client vs) of
        (Some u, CClient c) \<Rightarrow>
          RedirectResponse (construct_redirect_uri u (model_dump error_resp)) 302
            [(''Cache-Control'', ''no-store'')]
      | _ \<Rightarrow> PydanticJSONResponse 400 error_resp [(''Cache-Control'', ''no-store'')])"

definition error_response ::
  "('c, 'w) provider \<Rightarrow> 'w \<Rightarrow> 'c locals \<Rightarrow> AuthorizationErrorCode \<Rightarrow> string option \<Rightarrow> bool
     \<Rightarrow> (exn + response) \<times> 'c locals \<times> 'w" where
  "error_response env w vs error error_description attempt_load_client =
     (case load_client env w vs attempt_load_client of
        (Inl e, w1) \<Rightarrow> (Inl e, vs, w1)
      | (Inr vs1, w1) \<Rightarrow>
          (case load_redirect_uri env vs1 of
             Inl e \<Rightarrow> (Inl e, vs1, w1)
           | Inr vs2 \<Rightarrow>
               (let vs3 = load_state vs2;
                    error_resp = \<lparr>er_error = error, er_error_description = error_description,
                                  er_error_uri = None, er_state = state vs3\<rparr>
                in (Inr (emit vs3 error_resp), vs3, w1))))"

subsection \<open>The handler\<close>

text \<open>
  The body of the outer \<open>try\<close> of \<open>handle\<close>. An exception that no inner \<open>except\<close>
  clause names, and every exception of a call of \<open>error_response\<close> made here, leaves
  the body.
\<close>

definition handle_try ::
  "('c, 'w) provider \<Rightarrow> 'w \<Rightarrow> request \<Rightarrow> 'c locals \<Rightarrow> (exn + response) \<times> 'c locals \<times> 'w" where
  "handle_try env w req vs0 =
     (case (if http_method req = ''GET'' then Inr (query_params req) else form req) of
        Inl e \<Rightarrow> (Inl e, vs0, w)
      | Inr ps \<Rightarrow>
          (let vs1 = vs0\<lparr>params := Some ps\<rparr>;
               vs2 = vs1\<lparr>state := best_effort_extract_string ''state'' (params vs1)\<rparr>
           in case model_validate env ps of
                Inl errs \<Rightarrow>
                  error_response env w vs2 (error_code_of errs)
                    (Some (stringify_pydantic_error env errs)) True
              | Inr auth_request \<Rightarrow>
                  (let vs3 = vs2\<lparr>state := ar_state auth_request\<rparr> in
                   case get_client env w (ar_client_id auth_request) of
                     (Inl e, w1) \<Rightarrow> (Inl e, vs3, w1)
                   | (Inr None, w1) \<Rightarrow>
                       error_response env w1 (vs3\<lparr>client := CNone\<rparr>) invalid_request
                         (Some (''Client ID '' @ [CHR 0x27] @ ar_client_id auth_request @
                                [CHR 0x27] @ '' not found''))
                         False
                   | (Inr (Some c), w1) \<Rightarrow>
                       (let vs4 = vs3\<lparr>client := CClient c\<rparr> in
                        case validate_redirect_uri env c (ar_redirect_uri auth_request) of
                          Inl (InvalidRedirectUriError m) \<Rightarrow>
                            error_response env w1 vs4 invalid_request (Some m) True
                        | Inl e \<Rightarrow> (Inl e, vs4, w1)
                        | Inr u \<Rightarrow>
                            (let vs5 = vs4\<lparr>redirect_uri := Some u\<rparr> in
                             case validate_scope env c (ar_scope auth_request) of
                               Inl (InvalidScopeError m) \<Rightarrow>
                                 error_response env w1 vs5 invalid_scope (Some m) True
                             | Inl e \<Rightarrow> (Inl e, vs5, w1)
                             | Inr scopes \<Rightarrow>
                                 (case authorize env w1 c
                                         \<lparr>ap_state = state vs5, ap_scopes = scopes,
                                          ap_code_challenge = ar_code_challenge auth_request,
                                          ap_redirect_uri = u\<rparr> of
                                    (Inl (AuthorizeError code description), w2) \<Rightarrow>
                                      error_response env w2 vs5 code description True
                                  | (Inl e, w2) \<Rightarrow> (Inl e, vs5, w2)
                                  | (Inr location, w2) \<Rightarrow>
                                      (Inr (RedirectResponse location 302
                                              [(''Cache-Control'', ''no-store'')]),
                                       vs5, w2)))))))"

text \<open>
  \<open>handle\<close> with the final values of its local variables and the provider state: the
  four variables start as \<open>None\<close>; \<open>except Exception\<close> around the body calls
  \<open>error_response\<close> once more, and an exception of that call leaves \<open>handle\<close>.
  Writing to the log is not modelled.
\<close>

definition locals0 :: "'c locals" where
  "locals0 = \<lparr>state = None, redirect_uri = None, client = CNone, params = None\<rparr>"

definition handle_locals ::
  "('c, 'w) provider \<Rightarrow> 'w \<Rightarrow> request \<Rightarrow> (exn + response) \<times> 'c locals \<times> 'w" where
  "handle_locals env w req =
     (case handle_try env w req locals0 of
        (Inl e, vs, w1) \<Rightarrow>
          error_response env w1 vs server_error (Some ''An unexpected error occurred'') True
      | (Inr resp, vs, w1) \<Rightarrow> (Inr resp, vs, w1))"

definition handle :: "('c, 'w) provider \<Rightarrow> 'w \<Rightarrow> request \<Rightarrow> exn + response" where
  "handle env w req = fst (handle_locals env w req)"

subsection \<open>Predicates used in the statements\<close>

definition is_redirect :: "response \<Rightarrow> bool" where
  "is_redirect r =
     (case r of RedirectResponse _ _ _ \<Rightarrow> True | PydanticJSONResponse _ _ _ \<Rightarrow> False)"

text \<open>The parameters that \<open>handle\<close> reads: the query for \<open>GET\<close>, the form otherwise.\<close>

definition request_params :: "request \<Rightarrow> exn + params" where
  "request_params req = (if http_method req = ''GET'' then Inr (query_params req) else form req)"

text \<open>
  The redirect URI that the raw parameters ask for, if they are usable: \<open>Some None\<close>
  when the key is absent (the client's default is asked for), \<open>Some (Some u)\<close> when the
  value is a string that is a valid HTTP URL \<open>u\<close>, and \<open>None\<close> otherwise.
\<close>

definition requested_redirect_uri ::
  "('c, 'w) provider \<Rightarrow> params option \<Rightarrow> string option option" where
  "requested_redirect_uri env ps =
     (case ps of
        None \<Rightarrow> None
      | Some m \<Rightarrow>
          (case m ''redirect_uri'' of
             None \<Rightarrow> Some None
           | Some (PStr s) \<Rightarrow>
               (case any_http_url env s of None \<Rightarrow> None | Some u \<Rightarrow> Some (Some u))
           | Some PUpload \<Rightarrow> None))"

text \<open>
  Both are established: \<open>client\<close> holds a client object, and \<open>redirect_uri\<close> holds the
  URI that this client's \<open>validate_redirect_uri\<close> returns for the redirect URI that the
  raw parameters ask for.
\<close>

definition established :: "('c, 'w) provider \<Rightarrow> 'c locals \<Rightarrow> bool" where
  "established env vs =
     (case (client vs, redirect_uri vs, requested_redirect_uri env (params vs)) of
        (CClient c, Some u, Some raw) \<Rightarrow> validate_redirect_uri env c raw = Inr u
      | _ \<Rightarrow> False)"

definition uri_inv :: "('c, 'w) provider \<Rightarrow> 'c locals \<Rightarrow> bool" where
  "uri_inv env vs = (redirect_uri vs = None \<or> established env vs)"

text \<open>
  A client object in \<open>client\<close> is one that \<open>get_client\<close> returned, in some state of the
  provider, for the string under \<open>client_id\<close> in the raw parameters.
\<close>

definition resolved :: "('c, 'w) provider \<Rightarrow> 'c locals \<Rightarrow> bool" where
  "resolved env vs =
     (case client vs of
        CClient c \<Rightarrow>
          (\<exists>cid w0 w1. best_effort_extract_string ''client_id'' (params vs) = Some cid \<and>
             get_client env w0 cid = (Inr (Some c), w1))
      | _ \<Rightarrow> True)"

text \<open>
  The two kinds of redirect target: the validated redirect URI in \<open>redirect_uri\<close>
  with the fields of an error response appended, and the location that the provider's
  \<open>authorize\<close> returned for the client in \<open>client\<close> and the validated redirect URI.
\<close>

definition error_target :: "'c locals \<Rightarrow> string \<Rightarrow> bool" where
  "error_target vs location =
     (\<exists>er u. redirect_uri vs = Some u \<and>
        location = construct_redirect_uri u (model_dump er))"

definition delegate_target :: "('c, 'w) provider \<Rightarrow> 'c locals \<Rightarrow> 'w \<Rightarrow> string \<Rightarrow> bool" where
  "delegate_target env vs w' location =
     (\<exists>c ap w0. client vs = CClient c \<and> redirect_uri vs = Some (ap_redirect_uri ap) \<and>
        authorize env w0 c ap = (Inr location, w'))"

text \<open>
  A base URI \<open>sch://nl p ? q\<close> in its parts: the scheme is \<open>http\<close> or
  \<open>https\<close>, the network location is not empty and has none of \<open>/?#\<close>, the path is
  empty or starts with \<open>/\<close> and has none of \<open>?#;\<close>, the query string is not empty
  and has no \<open>#\<close>, and no part has a tab, a line feed or a carriage return.
\<close>

definition http_base :: "string \<Rightarrow> string \<Rightarrow> string \<Rightarrow> string \<Rightarrow> bool" where
  "http_base sch nl p q =
     ((sch = ''http'' \<or> sch = ''https'') \<and>
      nl \<noteq> [] \<and>
      list_all (\<lambda>c. c \<notin> set ''/?#'' \<and> (of_char c :: nat) \<notin> {9, 10, 13}) nl \<and>
      (p = [] \<or> take 1 p = ''/'') \<and>
      list_all (\<lambda>c. c \<notin> set ''?#;'' \<and> (of_char c :: nat) \<notin> {9, 10, 13}) p \<and>
      q \<noteq> [] \<and>
      list_all (\<lambda>c. c \<noteq> CHR ''#'' \<and> (of_char c :: nat) \<notin> {9, 10, 13}) q)"

text \<open>
  The fields of the error response for a rejected scope, as
  \<open>model_dump(exclude_none=True)\<close> gives them: the error, the message of the
  \<open>InvalidScopeError\<close>, and the state if there is one.
\<close>

definition scope_error_fields :: "string \<Rightarrow> string option \<Rightarrow> (string \<times> string) list" where
  "scope_error_fields m st =
     [(''error'', ''invalid_scope''), (''error_description'', m)] @ opt_field ''state'' st"

text \<open>A required field of \<open>AuthorizationRequest\<close> is missing from the parameters.\<close>

definition missing_required :: "params \<Rightarrow> bool" where
  "missing_required ps =
     (ps ''client_id'' = None \<or> ps ''response_type'' = None \<or> ps ''code_challenge'' = None)"

text \<open>\<open>response_type\<close> is present but is not the string \<open>code\<close>.\<close>

definition response_type_mismatch :: "params \<Rightarrow> bool" where
  "response_type_mismatch ps =
     (case ps ''response_type'' of
        None \<Rightarrow> False
      | Some (PStr v) \<Rightarrow> v \<noteq> ''code''
      | Some PUpload \<Rightarrow> True)"

subsection \<open>An example provider\<close>

text \<open>
  A provider with one registered client \<open>c1\<close>, for evaluating the handler on concrete
  requests. Its state is the number of calls of \<open>get_client\<close> that will still fail
  because the client store is unavailable.
\<close>

record demo_client =
  dc_redirect_uris :: "string list"
  dc_scopes :: "string list"

definition demo_validate_redirect_uri :: "demo_client \<Rightarrow> string option \<Rightarrow> exn + string" where
  "demo_validate_redirect_uri c raw =
     (case raw of
        Some u \<Rightarrow>
          if u \<in> set (dc_redirect_uris c) then Inr u
          else Inl (InvalidRedirectUriError ''Redirect URI not registered for client'')
      | None \<Rightarrow>
          (case dc_redirect_uris c of
             [u] \<Rightarrow> Inr u
           | _ \<Rightarrow> Inl (InvalidRedirectUriError ''redirect_uri must be specified'')))"

definition demo_validate_scope :: "demo_client \<Rightarrow> string option \<Rightarrow> exn + string list" where
  "demo_validate_scope c requested =
     (case requested of
        None \<Rightarrow> Inr []
      | Some s \<Rightarrow>
          if s \<in> set (dc_scopes c) then Inr [s]
          else Inl (InvalidScopeError ''Client was not registered with scope''))"

definition demo_c1 :: demo_client where
  "demo_c1 = \<lparr>dc_redirect_uris = [''https://app.example/cb?foo=1''], dc_scopes = [''read'']\<rparr>"

definition demo_provider :: "(demo_client, nat) provider" where
  "demo_provider =
     \<lparr>get_client = (\<lambda>w cid.
         if 0 < w then (Inl (OtherException ''client store unavailable''), w - 1)
         else if cid = ''c1'' then (Inr (Some demo_c1), w)
         else (Inr None, w)),
      authorize = (\<lambda>w c ap.
         (Inr (construct_redirect_uri (ap_redirect_uri ap)
                 ([(''code'', ''abc'')] @ opt_field ''state'' (ap_state ap))), w)),
      validate_redirect_uri = demo_validate_redirect_uri,
      validate_scope = demo_validate_scope,
      any_http_url = (\<lambda>s. if take 8 s = ''https://'' then Some s else None),
      stringify_pydantic_error = (\<lambda>errs. ''invalid'')\<rparr>"

text \<open>
  The parameters of a well-formed authorization request of \<open>c1\<close>, and the
  \<open>GET\<close> request with given query parameters.
\<close>

definition demo_params :: params where
  "demo_params =
     map_of
       [(''client_id'', PStr ''c1''),
        (''redirect_uri'', PStr ''https://app.example/cb?foo=1''),
        (''response_type'', PStr ''code''),
        (''code_challenge'', PStr ''E9Melhoa2OwvFrEMTJguCHaoeK1t8URWbuGJSstw-cM''),
        (''state'', PStr ''xyz''),
        (''scope'', PStr ''read'')]"

definition get_request :: "params \<Rightarrow> request" where
  "get_request ps = \<lparr>http_method = ''GET'', query_params = ps, form = Inr Map.empty\<rparr>"

section \<open>Properties\<close>

subsection \<open>Evaluation on the example provider\<close>

lemmas field_defs =
  required_str_def optional_http_url_def literal_str_def optional_str_def errors_of_def

lemmas router_defs =
  error_response_def load_client_def load_redirect_uri_def raw_redirect_uri_def
  load_state_def emit_def best_effort_extract_string_def AnyHttpUrlModel_validate_def

lemmas handler_defs = handle_locals_def handle_try_def locals0_def get_request_def

lemma demo_provider_simps:
  "get_client demo_provider w cid =
     (if 0 < w then (Inl (OtherException ''client store unavailable''), w - 1)
      else if cid = ''c1'' then (Inr (Some demo_c1), w) else (Inr None, w))"
  "authorize demo_provider w c ap =
     (Inr (construct_redirect_uri (ap_redirect_uri ap)
             ([(''code'', ''abc'')] @ opt_field ''state'' (ap_state ap))), w)"
  "validate_redirect_uri demo_provider = demo_validate_redirect_uri"
  "validate_scope demo_provider = demo_validate_scope"
  "any_http_url demo_provider s = (if take 8 s = ''https://'' then Some s else None)"
  "stringify_pydantic_error demo_provider errs = ''invalid''"
  by (simp_all add: demo_provider_def)

lemma demo_client_simps:
  "demo_validate_redirect_uri demo_c1 None = Inr ''https://app.example/cb?foo=1''"
  "demo_validate_redirect_uri demo_c1 (Some ''https://app.example/cb?foo=1'') =
     Inr ''https://app.example/cb?foo=1''"
  "demo_validate_scope demo_c1 None = Inr []"
  "demo_validate_scope demo_c1 (Some ''read'') = Inr [''read'']"
  "demo_validate_scope demo_c1 (Some ''admin'') =
     Inl (InvalidScopeError ''Client was not registered with scope'')"
  by (simp_all add: demo_validate_redirect_uri_def demo_validate_scope_def demo_c1_def)

lemma demo_params_simps:
  "demo_params ''client_id'' = Some (PStr ''c1'')"
  "demo_params ''redirect_uri'' = Some (PStr ''https://app.example/cb?foo=1'')"
  "demo_params ''response_type'' = Some (PStr ''code'')"
  "demo_params ''code_challenge'' = Some (PStr ''E9Melhoa2OwvFrEMTJguCHaoeK1t8URWbuGJSstw-cM'')"
  "demo_params ''code_challenge_method'' = None"
  "demo_params ''state'' = Some (PStr ''xyz'')"
  "demo_params ''scope'' = Some (PStr ''read'')"
  by (simp_all add: demo_params_def)

lemmas demo_simps = demo_provider_simps demo_client_simps demo_params_simps

subsection \<open>What the error router returns and preserves\<close>

lemma error_response_emit:
  "error_response env w vs code desc a = (Inr r, vs', w') \<Longrightarrow>
   r = emit vs' \<lparr>er_error = code, er_error_description = desc, er_error_uri = None,
                 er_state = state vs'\<rparr>"
  by (auto simp: error_response_def Let_def split: prod.splits sum.splits)

lemma emit_redirect_iff:
  "is_redirect (emit vs er) \<longleftrightarrow> (\<exists>c u. client vs = CClient c \<and> redirect_uri vs = Some u)"
  by (auto simp: emit_def is_redirect_def split: option.splits client_var.splits)

lemma emit_direct:
  "\<not> is_redirect (emit vs er) \<Longrightarrow>
   emit vs er = PydanticJSONResponse 400 er [(''Cache-Control'', ''no-store'')]"
  by (auto simp: emit_def is_redirect_def split: option.splits client_var.splits)

lemma emit_redirect:
  "redirect_uri vs = Some u \<Longrightarrow> client vs = CClient c \<Longrightarrow>
   emit vs er = RedirectResponse (construct_redirect_uri u (model_dump er)) 302
                  [(''Cache-Control'', ''no-store'')]"
  by (simp add: emit_def)

lemma raw_requested:
  "raw_redirect_uri env ps = Inr raw \<Longrightarrow> ps \<noteq> None \<Longrightarrow>
   requested_redirect_uri env ps = Some raw"
  by (auto simp: raw_redirect_uri_def requested_redirect_uri_def AnyHttpUrlModel_validate_def
      best_effort_extract_string_def split: option.splits pvalue.splits if_splits sum.splits)

lemma raw_None: "raw_redirect_uri env None = Inl (ValidationError [ErrorDetails [] ''url_type''])"
  by (simp add: raw_redirect_uri_def AnyHttpUrlModel_validate_def
      best_effort_extract_string_def)

lemma load_client_inv:
  "load_client env w vs a = (Inr vs', w') \<Longrightarrow> uri_inv env vs \<Longrightarrow> uri_inv env vs'"
  by (auto simp: load_client_def uri_inv_def established_def
      split: if_splits option.splits prod.splits sum.splits client_var.splits)

lemma load_redirect_uri_inv:
  "load_redirect_uri env vs = Inr vs' \<Longrightarrow> uri_inv env vs \<Longrightarrow> uri_inv env vs'"
  by (cases "params vs")
     (auto simp: load_redirect_uri_def uri_inv_def established_def raw_None
      dest: raw_requested
      split: if_splits option.splits prod.splits sum.splits client_var.splits exn.splits)

lemma established_state_upd: "established env (vs\<lparr>state := s\<rparr>) = established env vs"
  by (simp add: established_def)

lemma uri_inv_state_upd: "uri_inv env (vs\<lparr>state := s\<rparr>) = uri_inv env vs"
  by (simp add: uri_inv_def established_state_upd)

lemma load_state_inv: "uri_inv env vs \<Longrightarrow> uri_inv env (load_state vs)"
  by (simp add: load_state_def uri_inv_state_upd)

lemma error_response_inv:
  "error_response env w vs code desc a = (res, vs', w') \<Longrightarrow> uri_inv env vs \<Longrightarrow>
   uri_inv env vs'"
  by (auto simp: error_response_def Let_def split: prod.splits sum.splits
      dest: load_client_inv load_redirect_uri_inv intro: load_state_inv)

lemma resolved_upd:
  "resolved env (vs\<lparr>state := s\<rparr>) = resolved env vs"
  "resolved env (vs\<lparr>redirect_uri := u\<rparr>) = resolved env vs"
  by (simp_all add: resolved_def split: client_var.splits)

lemma load_client_resolved:
  "load_client env w vs a = (Inr vs', w') \<Longrightarrow> resolved env vs \<Longrightarrow> resolved env vs'"
  by (fastforce simp: load_client_def resolved_def
      split: if_splits option.splits prod.splits sum.splits)

lemma load_redirect_uri_resolved:
  "load_redirect_uri env vs = Inr vs' \<Longrightarrow> resolved env vs \<Longrightarrow> resolved env vs'"
  by (auto simp: load_redirect_uri_def resolved_upd
      split: option.splits client_var.splits sum.splits exn.splits)

lemma error_response_resolved:
  "error_response env w vs code desc a = (res, vs', w') \<Longrightarrow> resolved env vs \<Longrightarrow>
   resolved env vs'"
  by (auto simp: error_response_def Let_def load_state_def resolved_upd
      split: prod.splits sum.splits if_splits
      dest: load_client_resolved load_redirect_uri_resolved)

subsection \<open>What schema validation returns\<close>

lemma model_validate_Inr:
  assumes "model_validate env ps = Inr ar"
  shows "requested_redirect_uri env (Some ps) = Some (ar_redirect_uri ar)"
    and "ar_state ar = best_effort_extract_string ''state'' (Some ps)"
    and "ps ''client_id'' = Some (PStr (ar_client_id ar))"
    and "ps ''response_type'' = Some (PStr ''code'')"
    and "ps ''code_challenge'' \<noteq> None"
proof -
  from assms obtain cid ru rt cc ccm st sc where
    f: "required_str ''client_id'' ps = Inr cid"
       "optional_http_url env ''redirect_uri'' ps = Inr ru"
       "literal_str ''response_type'' ''code'' None ps = Inr rt"
       "optional_str ''state'' ps = Inr st"
       "required_str ''code_challenge'' ps = Inr cc"
    and ar: "ar = \<lparr>ar_client_id = cid, ar_redirect_uri = ru, ar_response_type = rt,
               ar_code_challenge = cc, ar_code_challenge_method = ccm,
               ar_state = st, ar_scope = sc\<rparr>"
    by (auto simp: model_validate_def split: sum.splits)
  show "requested_redirect_uri env (Some ps) = Some (ar_redirect_uri ar)"
    using f(2)
    by (auto simp: ar optional_http_url_def requested_redirect_uri_def
        split: option.splits pvalue.splits)
  show "ar_state ar = best_effort_extract_string ''state'' (Some ps)"
    using f(4)
    by (auto simp: ar optional_str_def best_effort_extract_string_def
        split: option.splits pvalue.splits)
  show "ps ''client_id'' = Some (PStr (ar_client_id ar))"
    using f(1) by (auto simp: ar required_str_def split: option.splits pvalue.splits)
  show "ps ''response_type'' = Some (PStr ''code'')"
    using f(3) by (auto simp: ar literal_str_def split: option.splits pvalue.splits if_splits)
  show "ps ''code_challenge'' \<noteq> None"
    using f(5) by (auto simp: required_str_def split: option.splits pvalue.splits)
qed

subsection \<open>Invariants of the handler\<close>

lemma uri_inv_None: "redirect_uri vs = None \<Longrightarrow> uri_inv env vs"
  by (simp add: uri_inv_def)

lemma uri_inv_main:
  "model_validate env ps = Inr ar \<Longrightarrow>
   validate_redirect_uri env c (ar_redirect_uri ar) = Inr u \<Longrightarrow>
   uri_inv env \<lparr>state = s, redirect_uri = Some u, client = CClient c, params = Some ps\<rparr>"
  by (simp add: uri_inv_def established_def model_validate_Inr(1))

lemma handle_try_inv:
  assumes "handle_try env w req locals0 = (res, vs, w')"
  shows "uri_inv env vs"
  using assms
  by (auto simp: handle_try_def locals0_def Let_def uri_inv_main
      split: sum.splits prod.splits option.splits exn.splits
      dest!: error_response_inv intro: uri_inv_None)

lemma resolved_main:
  "model_validate env ps = Inr ar \<Longrightarrow>
   get_client env w (ar_client_id ar) = (Inr (Some c), w1) \<Longrightarrow>
   resolved env \<lparr>state = s, redirect_uri = u, client = CClient c, params = Some ps\<rparr>"
  using model_validate_Inr(3)[of env ps ar]
  by (auto simp: resolved_def best_effort_extract_string_def)

lemma resolved_no_client: "client vs = CNone \<Longrightarrow> resolved env vs"
  by (simp add: resolved_def)

lemma handle_try_resolved:
  assumes "handle_try env w req locals0 = (res, vs, w')"
  shows "resolved env vs"
  using assms
  by (auto simp: handle_try_def locals0_def Let_def resolved_main
      split: sum.splits prod.splits option.splits exn.splits
      dest!: error_response_resolved intro: resolved_no_client)

lemma handle_try_response:
  assumes "handle_try env w req locals0 = (Inr r, vs, w')"
  shows "(\<exists>er. r = emit vs er) \<or>
         (\<exists>location. delegate_target env vs w' location \<and>
            r = RedirectResponse location 302 [(''Cache-Control'', ''no-store'')])"
  using assms
  by (auto simp: handle_try_def locals0_def Let_def delegate_target_def
      split: sum.splits prod.splits option.splits exn.splits
      dest!: error_response_emit)

lemma handle_locals_inv:
  assumes "handle_locals env w req = (res, vs, w')"
  shows "uri_inv env vs" and "resolved env vs"
  using assms
  by (auto simp: handle_locals_def split: prod.splits sum.splits
      dest: handle_try_inv handle_try_resolved error_response_inv error_response_resolved)

lemma handle_locals_response:
  assumes "handle_locals env w req = (Inr r, vs, w')"
  shows "(\<exists>er. r = emit vs er) \<or>
         (\<exists>location. delegate_target env vs w' location \<and>
            r = RedirectResponse location 302 [(''Cache-Control'', ''no-store'')])"
  using assms
  by (auto simp: handle_locals_def split: prod.splits sum.splits
      dest: handle_try_response error_response_emit)

lemma established_iff:
  "uri_inv env vs \<Longrightarrow>
   established env vs \<longleftrightarrow> (\<exists>c u. client vs = CClient c \<and> redirect_uri vs = Some u)"
  by (auto simp: uri_inv_def established_def split: client_var.splits option.splits)

lemma handle_locals_of_handle:
  "handle env w req = res \<Longrightarrow> \<exists>vs w'. handle_locals env w req = (res, vs, w')"
  by (cases "handle_locals env w req") (simp add: handle_def)

subsection \<open>The parameters and the error code\<close>

lemma error_response_params:
  "error_response env w vs code desc a = (res, vs', w') \<Longrightarrow> params vs' = params vs"
  by (auto simp: error_response_def load_client_def load_redirect_uri_def load_state_def Let_def
      split: prod.splits sum.splits if_splits option.splits client_var.splits exn.splits)

lemma handle_try_request_params:
  "handle_try env w req vs =
     (case request_params req of
        Inl e \<Rightarrow> (Inl e, vs, w)
      | Inr ps \<Rightarrow>
          handle_try env w \<lparr>http_method = ''GET'', query_params = ps, form = Inr ps\<rparr> vs)"
  by (simp add: handle_try_def request_params_def split: sum.splits)

lemma handle_locals_request_params:
  "request_params req = request_params req' \<Longrightarrow>
   handle_locals env w req = handle_locals env w req'"
  by (simp add: handle_locals_def handle_try_request_params[of env w req]
      handle_try_request_params[of env w req'])

lemma handle_try_params:
  assumes "handle_try env w req locals0 = (res, vs, w')"
  shows "params vs = (case request_params req of Inl e \<Rightarrow> None | Inr ps \<Rightarrow> Some ps)"
  using assms
  by (auto simp: handle_try_def request_params_def locals0_def Let_def
      split: sum.splits prod.splits option.splits exn.splits if_splits
      dest!: error_response_params)

lemma handle_locals_params:
  assumes "handle_locals env w req = (res, vs, w')"
  shows "params vs = (case request_params req of Inl e \<Rightarrow> None | Inr ps \<Rightarrow> Some ps)"
  using assms
  by (auto simp: handle_locals_def split: prod.splits sum.splits
      dest!: error_response_params handle_try_params)

lemma error_code_of_append:
  "error_code_of (xs @ ys) =
     (if error_code_of xs = unsupported_response_type then unsupported_response_type
      else error_code_of ys)"
  by (induction xs) auto

lemma error_code_of_cases:
  "error_code_of xs = unsupported_response_type \<or> error_code_of xs = invalid_request"
  by (induction xs) auto

lemma code_required_str: "error_code_of (errors_of (required_str k ps)) = invalid_request"
  by (auto simp: required_str_def errors_of_def split: option.splits pvalue.splits)

lemma code_optional_str: "error_code_of (errors_of (optional_str k ps)) = invalid_request"
  by (auto simp: optional_str_def errors_of_def split: option.splits pvalue.splits)

lemma code_optional_http_url:
  "error_code_of (errors_of (optional_http_url env k ps)) = invalid_request"
  by (auto simp: optional_http_url_def errors_of_def split: option.splits pvalue.splits)

lemma code_literal_other:
  "k \<noteq> ''response_type'' \<Longrightarrow>
   error_code_of (errors_of (literal_str k lit dflt ps)) = invalid_request"
  by (auto simp: literal_str_def errors_of_def split: option.splits pvalue.splits)

lemma code_response_type:
  "error_code_of (errors_of (literal_str ''response_type'' ''code'' None ps)) =
     (if response_type_mismatch ps then unsupported_response_type else invalid_request)"
  by (auto simp: literal_str_def errors_of_def response_type_mismatch_def
      split: option.splits pvalue.splits)

lemma model_validate_Inl:
  assumes "model_validate env ps = Inl errs"
  shows "errs =
     errors_of (required_str ''client_id'' ps) @
     errors_of (optional_http_url env ''redirect_uri'' ps) @
     errors_of (literal_str ''response_type'' ''code'' None ps) @
     errors_of (required_str ''code_challenge'' ps) @
     errors_of (literal_str ''code_challenge_method'' ''S256'' (Some ''S256'') ps) @
     errors_of (optional_str ''state'' ps) @
     errors_of (optional_str ''scope'' ps)"
  using assms by (auto simp: model_validate_def split: sum.splits)

lemma model_validate_code:
  assumes "model_validate env ps = Inl errs"
  shows "error_code_of errs =
     (if response_type_mismatch ps then unsupported_response_type else invalid_request)"
  unfolding model_validate_Inl[OF assms]
  by (simp add: error_code_of_append code_required_str code_optional_str
      code_optional_http_url code_literal_other code_response_type)

lemma mismatch_fails:
  "response_type_mismatch ps \<Longrightarrow> \<exists>errs. model_validate env ps = Inl errs"
  by (auto simp: model_validate_def literal_str_def response_type_mismatch_def
      split: sum.splits option.splits pvalue.splits if_splits)

lemma missing_fails:
  "missing_required ps \<Longrightarrow> \<exists>errs. model_validate env ps = Inl errs"
  by (auto simp: model_validate_def literal_str_def required_str_def missing_required_def
      split: sum.splits option.splits pvalue.splits if_splits)

lemma handle_try_schema_error:
  assumes "request_params req = Inr ps" and "model_validate env ps = Inl errs"
  shows "handle_try env w req locals0 =
     error_response env w
       \<lparr>state = best_effort_extract_string ''state'' (Some ps), redirect_uri = None,
         client = CNone, params = Some ps\<rparr>
       (error_code_of errs) (Some (stringify_pydantic_error env errs)) True"
  using assms by (simp add: handle_try_def request_params_def locals0_def)


lemma load_state_same:
  "state vs = best_effort_extract_string ''state'' (params vs) \<Longrightarrow> load_state vs = vs"
  by (simp add: load_state_def)

lemma error_response_direct:
  assumes "load_client env w vs a = (Inr vs1, w1)" and "redirect_uri vs1 = None"
    and "client vs1 = CNone \<or> client vs1 = CEmptyStr"
    and "state vs1 = best_effort_extract_string ''state'' (params vs1)"
  shows "error_response env w vs code desc a =
           (Inr (PydanticJSONResponse 400
                   \<lparr>er_error = code, er_error_description = desc, er_error_uri = None,
                     er_state = state vs1\<rparr>
                   [(''Cache-Control'', ''no-store'')]), vs1, w1)"
  using assms(2,3)
  by (auto simp: error_response_def assms(1) load_redirect_uri_def load_state_same[OF assms(4)] emit_def)


subsection \<open>Concrete requests\<close>

lemma demo_construct_code:
  "construct_redirect_uri ''https://app.example/cb?foo=1''
     [(''code'', ''abc''), (''state'', ''xyz'')] =
   ''https://app.example/cb?foo=1&code=abc&state=xyz''"
  by code_simp

lemma demo_model_validate_ok:
  "model_validate demo_provider demo_params =
     Inr \<lparr>ar_client_id = ''c1'', ar_redirect_uri = Some ''https://app.example/cb?foo=1'',
          ar_response_type = ''code'',
          ar_code_challenge = ''E9Melhoa2OwvFrEMTJguCHaoeK1t8URWbuGJSstw-cM'',
          ar_code_challenge_method = ''S256'', ar_state = Some ''xyz'',
          ar_scope = Some ''read''\<rparr>"
  by (simp add: model_validate_def field_defs demo_simps)

lemma demo_handle_ok:
  "handle_locals demo_provider 0 (get_request demo_params) =
     (Inr (RedirectResponse ''https://app.example/cb?foo=1&code=abc&state=xyz'' 302
             [(''Cache-Control'', ''no-store'')]),
      \<lparr>state = Some ''xyz'', redirect_uri = Some ''https://app.example/cb?foo=1'',
        client = CClient demo_c1, params = Some demo_params\<rparr>, 0)"
  by (simp add: handler_defs demo_model_validate_ok demo_simps opt_field_def
      demo_construct_code best_effort_extract_string_def)

lemma demo_handle_form_fails:
  "handle demo_provider 0
     \<lparr>http_method = ''PUT'', query_params = demo_params,
       form = Inl (OtherException ''bad body'')\<rparr> =
   Inr (PydanticJSONResponse 400
          \<lparr>er_error = server_error,
            er_error_description = Some ''An unexpected error occurred'',
            er_error_uri = None, er_state = None\<rparr>
          [(''Cache-Control'', ''no-store'')])"
  by (simp add: handle_def handler_defs router_defs)

lemma demo_model_validate_bad_uri:
  "model_validate demo_provider (demo_params(''redirect_uri'' \<mapsto> PStr ''not a url'')) =
     Inl [ErrorDetails [''redirect_uri''] ''url_parsing'']"
  by (simp add: model_validate_def field_defs demo_simps)

lemma demo_model_validate_token:
  "model_validate demo_provider
     (demo_params(''response_type'' \<mapsto> PStr ''token'', ''code_challenge'' := None)) =
   Inl [ErrorDetails [''response_type''] ''literal_error'',
        ErrorDetails [''code_challenge''] ''missing'']"
  by (simp add: model_validate_def field_defs demo_simps)

subsection \<open>Paths of the handler\<close>

lemma handle_of_try:
  "handle_try env w req locals0 = (Inr r, vs, w') \<Longrightarrow> handle env w req = Inr r"
  by (simp add: handle_def handle_locals_def)

lemma handle_try_unknown_client:
  assumes "request_params req = Inr ps" and "model_validate env ps = Inr ar"
    and "get_client env w (ar_client_id ar) = (Inr None, w1)"
  shows "handle_try env w req locals0 =
     error_response env w1
       \<lparr>state = ar_state ar, redirect_uri = None, client = CNone, params = Some ps\<rparr>
       invalid_request
       (Some (''Client ID '' @ [CHR 0x27] @ ar_client_id ar @ [CHR 0x27] @ '' not found''))
       False"
  using assms by (simp add: handle_try_def request_params_def locals0_def)

lemma handle_try_scope_rejected:
  assumes "request_params req = Inr ps" and "model_validate env ps = Inr ar"
    and "get_client env w (ar_client_id ar) = (Inr (Some c), w1)"
    and "validate_redirect_uri env c (ar_redirect_uri ar) = Inr u"
    and "validate_scope env c (ar_scope ar) = Inl (InvalidScopeError m)"
  shows "handle_try env w req locals0 =
     error_response env w1
       \<lparr>state = ar_state ar, redirect_uri = Some u, client = CClient c, params = Some ps\<rparr>
       invalid_scope (Some m) True"
  using assms by (simp add: handle_try_def request_params_def locals0_def)

lemma error_response_state:
  "error_response env w vs code desc a = (res, vs', w') \<Longrightarrow>
   state vs = best_effort_extract_string ''state'' (params vs) \<Longrightarrow> state vs' = state vs"
  by (auto simp: error_response_def load_client_def load_redirect_uri_def load_state_def Let_def
      split: prod.splits sum.splits if_splits option.splits client_var.splits exn.splits)

lemma error_response_established:
  assumes "client vs = CClient c" and "redirect_uri vs = Some u"
    and "state vs = best_effort_extract_string ''state'' (params vs)"
  shows "error_response env w vs code desc a =
     (Inr (RedirectResponse
             (construct_redirect_uri u
                (model_dump \<lparr>er_error = code, er_error_description = desc,
                              er_error_uri = None, er_state = state vs\<rparr>))
             302 [(''Cache-Control'', ''no-store'')]), vs, w)"
  using assms(1,2)
  by (simp add: error_response_def load_client_def load_redirect_uri_def
      load_state_same[OF assms(3)] emit_def)

subsection \<open>The composed URI\<close>

lemma urlunsplit_query:
  "q \<noteq> [] \<Longrightarrow>
   urlunsplit sch nl url1 q frag =
     urlunsplit sch nl url1 [] [] @ ''?'' @ q @ (if frag \<noteq> [] then ''#'' @ frag else [])"
  by (simp add: urlunsplit_def Let_def)

lemma quote_plus_literals:
  "quote_plus ''error'' = ''error''"
  "quote_plus ''error_description'' = ''error_description''"
  "quote_plus ''state'' = ''state''"
  "quote_plus ''invalid_scope'' = ''invalid_scope''"
  by code_simp+

lemma urlencode_scope_error:
  "urlencode ([(''error'', ''invalid_scope''), (''error_description'', m)] @
              opt_field ''state'' st) =
   ''error=invalid_scope&error_description='' @ quote_plus m @
   (case st of None \<Rightarrow> [] | Some s \<Rightarrow> ''&state='' @ quote_plus s)"
  by (cases st) (simp_all add: urlencode_def opt_field_def quote_plus_literals)

lemma construct_redirect_uri_query:
  assumes "query (urlparse u) \<noteq> []"
  shows "construct_redirect_uri u kw =
     urlunsplit (scheme (urlparse u)) (netloc (urlparse u))
       (if pparams (urlparse u) \<noteq> []
        then path (urlparse u) @ '';'' @ pparams (urlparse u) else path (urlparse u))
       [] [] @
     ''?'' @ query (urlparse u) @ ''&'' @ urlencode kw @
     (if fragment (urlparse u) \<noteq> [] then ''#'' @ fragment (urlparse u) else [])"
proof -
  let ?r = "urlparse u"
  let ?q = "query ?r @ ''&'' @ urlencode kw"
  let ?p = "if pparams ?r \<noteq> [] then path ?r @ '';'' @ pparams ?r else path ?r"
  have "construct_redirect_uri u kw = urlunsplit (scheme ?r) (netloc ?r) ?p ?q (fragment ?r)"
    using assms by (simp add: construct_redirect_uri_def urlunparse_def Let_def)
  also have "\<dots> = urlunsplit (scheme ?r) (netloc ?r) ?p [] [] @ ''?'' @ ?q @
                      (if fragment ?r \<noteq> [] then ''#'' @ fragment ?r else [])"
    by (rule urlunsplit_query) simp
  finally show ?thesis by simp
qed

lemma construct_keeps_query:
  assumes "query (urlparse u) \<noteq> []"
  shows "\<exists>pre post. construct_redirect_uri u kw =
           pre @ ''?'' @ query (urlparse u) @ ''&'' @ urlencode kw @ post"
  using construct_redirect_uri_query[OF assms, of kw] by blast

lemma create_error_redirect_query:
  assumes "query (urlparse uri) \<noteq> []"
  shows "create_error_redirect uri (ErrorResponse r) =
     urlunsplit (scheme (urlparse uri)) (netloc (urlparse uri))
       (if pparams (urlparse uri) \<noteq> []
        then path (urlparse uri) @ '';'' @ pparams (urlparse uri) else path (urlparse uri))
       [] [] @
     ''?'' @ query (urlparse uri) @ ''&'' @ urlencode (model_dump r) @
     (if fragment (urlparse uri) \<noteq> [] then ''#'' @ fragment (urlparse uri) else [])"
proof -
  let ?r = "urlparse uri"
  let ?q = "query ?r @ ''&'' @ urlencode (model_dump r)"
  let ?p = "if pparams ?r \<noteq> [] then path ?r @ '';'' @ pparams ?r else path ?r"
  have "create_error_redirect uri (ErrorResponse r) =
          urlunsplit (scheme ?r) (netloc ?r) ?p ?q (fragment ?r)"
    using assms by (simp add: create_error_redirect_def urlunparse_def Let_def)
  also have "\<dots> = urlunsplit (scheme ?r) (netloc ?r) ?p [] [] @ ''?'' @ ?q @
                      (if fragment ?r \<noteq> [] then ''#'' @ fragment ?r else [])"
    by (rule urlunsplit_query) simp
  finally show ?thesis by simp
qed

lemma takeWhile_append_stop:
  "(\<forall>x\<in>set xs. P x) \<Longrightarrow> \<not> P y \<Longrightarrow> takeWhile P (xs @ y # ys) = xs"
  by (induction xs) auto

lemma dropWhile_append_stop:
  "(\<forall>x\<in>set xs. P x) \<Longrightarrow> \<not> P y \<Longrightarrow> dropWhile P (xs @ y # ys) = y # ys"
  by (induction xs) auto

lemma takeWhile_all: "(\<forall>x\<in>set xs. P x) \<Longrightarrow> takeWhile P xs = xs"
  by (induction xs) auto

lemma dropWhile_all: "(\<forall>x\<in>set xs. P x) \<Longrightarrow> dropWhile P xs = []"
  by (induction xs) auto

lemma split_once_found:
  assumes "c \<notin> set xs"
  shows "split_once c (xs @ c # ys) = (xs, ys)"
proof -
  have a: "\<forall>x\<in>set xs. x \<noteq> c" using assms by auto
  have "takeWhile (\<lambda>x. x \<noteq> c) (xs @ c # ys) = xs"
    by (rule takeWhile_append_stop[OF a]) simp
  moreover have "dropWhile (\<lambda>x. x \<noteq> c) (xs @ c # ys) = c # ys"
    by (rule dropWhile_append_stop[OF a]) simp
  ultimately show ?thesis by (simp only: split_once_def) simp
qed

lemma split_once_absent:
  assumes "c \<notin> set xs"
  shows "split_once c xs = (xs, [])"
proof -
  have a: "\<forall>x\<in>set xs. x \<noteq> c" using assms by auto
  have "takeWhile (\<lambda>x. x \<noteq> c) xs = xs" by (rule takeWhile_all[OF a])
  moreover have "dropWhile (\<lambda>x. x \<noteq> c) xs = []" by (rule dropWhile_all[OF a])
  ultimately show ?thesis by (simp only: split_once_def) simp
qed

lemma split_scheme_https:
  "split_scheme (''https://'' @ rest) = (''https'', ''//'' @ rest)"
  by (simp add: split_scheme_def is_alpha_def scheme_char_def is_digit_def lower_def Let_def)

lemma split_scheme_http:
  "split_scheme (''http://'' @ rest) = (''http'', ''//'' @ rest)"
  by (simp add: split_scheme_def is_alpha_def scheme_char_def is_digit_def lower_def Let_def)


lemma filter_id: "(\<forall>x\<in>set xs. P x) \<Longrightarrow> filter P xs = xs"
  by (induction xs) auto

lemma split_netloc_found:
  assumes "\<forall>c\<in>set nl. c \<notin> set ''/?#''" and "rest \<noteq> []" and "hd rest \<in> set ''/?#''"
  shows "split_netloc (''//'' @ nl @ rest) = (nl, rest)"
proof -
  obtain y ys where r: "rest = y # ys" using assms(2) by (cases rest) auto
  have y: "\<not> (y \<notin> set ''/?#'')" using assms(3) r by simp
  have "takeWhile (\<lambda>x. x \<notin> set ''/?#'') (nl @ y # ys) = nl"
    by (rule takeWhile_append_stop[OF assms(1) y])
  moreover have "dropWhile (\<lambda>x. x \<notin> set ''/?#'') (nl @ y # ys) = y # ys"
    by (rule dropWhile_append_stop[OF assms(1) y])
  ultimately show ?thesis by (simp add: split_netloc_def r)
qed

lemma urlparse_http_base:
  assumes "http_base sch nl p q"
  shows "urlparse (sch @ ''://'' @ nl @ p @ ''?'' @ q) =
           \<lparr>scheme = sch, netloc = nl, path = p, pparams = [], query = q, fragment = []\<rparr>"
proof -
  let ?rest = "p @ ''?'' @ q"
  let ?u = "sch @ ''://'' @ nl @ ?rest"
  from assms have sch: "sch = ''http'' \<or> sch = ''https''"
    and nl: "\<forall>c\<in>set nl. c \<notin> set ''/?#''"
    and nl_ws: "\<forall>c\<in>set nl. (of_char c :: nat) \<notin> {9, 10, 13}"
    and p0: "p = [] \<or> take 1 p = ''/''"
    and p: "\<forall>c\<in>set p. c \<notin> set ''?#;''"
    and p_ws: "\<forall>c\<in>set p. (of_char c :: nat) \<notin> {9, 10, 13}"
    and q: "\<forall>c\<in>set q. c \<noteq> CHR ''#''"
    and q_ws: "\<forall>c\<in>set q. (of_char c :: nat) \<notin> {9, 10, 13}"
    by (auto simp: http_base_def list_all_iff)
  have u1: "dropWhile (\<lambda>x. (of_char x :: nat) \<le> 32) ?u = ?u"
    using sch by auto
  have "\<forall>x\<in>set ?u. (of_char x :: nat) \<notin> {9, 10, 13}"
    using sch nl_ws p_ws q_ws by auto
  then have u2: "filter (\<lambda>x. (of_char x :: nat) \<notin> {9, 10, 13}) ?u = ?u"
    by (rule filter_id)
  have u3: "split_scheme ?u = (sch, ''//'' @ nl @ ?rest)"
    using sch split_scheme_http[of "nl @ ?rest"] split_scheme_https[of "nl @ ?rest"] by auto
  have "hd ?rest \<in> set ''/?#''"
    using p0 by (cases p) auto
  then have u4: "split_netloc (''//'' @ nl @ ?rest) = (nl, ?rest)"
    by (intro split_netloc_found[OF nl]) simp_all
  have "CHR ''#'' \<notin> set ?rest" using p q by auto
  then have u5: "split_once CHR ''#'' ?rest = (?rest, [])"
    by (rule split_once_absent)
  have "CHR ''?'' \<notin> set p" using p by auto
  then have u6: "split_once CHR ''?'' ?rest = (p, q)"
    using split_once_found[of "CHR ''?''" p q] by simp
  have u7: "CHR '';'' \<notin> set p" using p by auto
  show ?thesis
    unfolding urlparse_def u1 u2 Let_def u3 prod.case u4 u5 u6
    using u7 by simp
qed

lemma urlunsplit_http_base:
  assumes "http_base sch nl p q"
  shows "urlunsplit sch nl p [] [] = sch @ ''://'' @ nl @ p"
proof -
  from assms have "sch \<noteq> []" "nl \<noteq> []" "p = [] \<or> take 1 p = ''/''"
    by (auto simp: http_base_def)
  then show ?thesis by (auto simp: urlunsplit_def Let_def)
qed

lemma create_error_redirect_http_base:
  assumes "http_base sch nl p q"
  shows "create_error_redirect (sch @ ''://'' @ nl @ p @ ''?'' @ q) (ErrorResponse r) =
           sch @ ''://'' @ nl @ p @ ''?'' @ q @ ''&'' @ urlencode (model_dump r)"
proof -
  have q: "q \<noteq> []" using assms by (simp add: http_base_def)
  have up: "urlparse (sch @ ''://'' @ nl @ p @ ''?'' @ q) =
           \<lparr>scheme = sch, netloc = nl, path = p, pparams = [], query = q, fragment = []\<rparr>"
    by (rule urlparse_http_base[OF assms])
  have "query (urlparse (sch @ ''://'' @ nl @ p @ ''?'' @ q)) \<noteq> []"
    unfolding up using q by simp
  from create_error_redirect_query[OF this, of r]
  have "create_error_redirect (sch @ ''://'' @ nl @ p @ ''?'' @ q) (ErrorResponse r) =
          urlunsplit sch nl p [] [] @ ''?'' @ q @ ''&'' @ urlencode (model_dump r)"
    unfolding up by simp
  then show ?thesis
    unfolding urlunsplit_http_base[OF assms] by simp
qed

lemma construct_redirect_uri_http_base:
  assumes "http_base sch nl p q"
  shows "construct_redirect_uri (sch @ ''://'' @ nl @ p @ ''?'' @ q) kw =
           sch @ ''://'' @ nl @ p @ ''?'' @ q @ ''&'' @ urlencode kw"
proof -
  have q: "q \<noteq> []" using assms by (simp add: http_base_def)
  have up: "urlparse (sch @ ''://'' @ nl @ p @ ''?'' @ q) =
           \<lparr>scheme = sch, netloc = nl, path = p, pparams = [], query = q, fragment = []\<rparr>"
    by (rule urlparse_http_base[OF assms])
  have "query (urlparse (sch @ ''://'' @ nl @ p @ ''?'' @ q)) \<noteq> []"
    unfolding up using q by simp
  from construct_redirect_uri_query[OF this, of kw]
  have "construct_redirect_uri (sch @ ''://'' @ nl @ p @ ''?'' @ q) kw =
          urlunsplit sch nl p [] [] @ ''?'' @ q @ ''&'' @ urlencode kw"
    unfolding up by simp
  then show ?thesis
    unfolding urlunsplit_http_base[OF assms] by simp
qed

subsection \<open>More concrete requests\<close>

lemma demo_urlparse:
  "urlparse ''https://app.example/cb?foo=1'' =
     \<lparr>scheme = ''https'', netloc = ''app.example'', path = ''/cb'', pparams = [],
       query = ''foo=1'', fragment = []\<rparr>"
  by code_simp

lemma demo_create_example:
  "create_error_redirect ''https://app.example/cb?foo=1''
     (ErrorResponse \<lparr>er_error = invalid_scope, er_error_description = None,
                      er_error_uri = None, er_state = Some ''xyz''\<rparr>) =
   ''https://app.example/cb?foo=1&error=invalid_scope&state=xyz''"
  by code_simp

lemma demo_create_old_error:
  "create_error_redirect ''https://app.example/cb?error=old''
     (ErrorResponse \<lparr>er_error = invalid_scope, er_error_description = None,
                      er_error_uri = None, er_state = Some ''xyz''\<rparr>) =
   ''https://app.example/cb?error=old&error=invalid_scope&state=xyz''"
  by code_simp

lemma demo_construct_invalid_request:
  "construct_redirect_uri ''https://app.example/cb?foo=1''
     [(''error'', ''invalid_request''), (''error_description'', ''invalid''),
      (''state'', ''xyz'')] =
   ''https://app.example/cb?foo=1&error=invalid_request&error_description=invalid&state=xyz''"
  by code_simp

lemma demo_construct_invalid_scope:
  "construct_redirect_uri ''https://app.example/cb?foo=1''
     [(''error'', ''invalid_scope''),
      (''error_description'', ''Client was not registered with scope''),
      (''state'', ''xyz'')] =
   ''https://app.example/cb?foo=1&error=invalid_scope&error_description=Client+was+not+registered+with+scope&state=xyz''"
  by code_simp

lemma demo_model_validate_no_challenge:
  "model_validate demo_provider (demo_params(''code_challenge'' := None)) =
   Inl [ErrorDetails [''code_challenge''] ''missing'']"
  by (simp add: model_validate_def field_defs demo_simps)

lemma demo_handle_try_no_challenge:
  "handle_try demo_provider 0 (get_request (demo_params(''code_challenge'' := None))) locals0 =
   (Inr (RedirectResponse
      ''https://app.example/cb?foo=1&error=invalid_request&error_description=invalid&state=xyz''
      302 [(''Cache-Control'', ''no-store'')]),
    \<lparr>state = Some ''xyz'', redirect_uri = Some ''https://app.example/cb?foo=1'',
      client = CClient demo_c1, params = Some (demo_params(''code_challenge'' := None))\<rparr>, 0)"
  by (simp add: handler_defs demo_model_validate_no_challenge router_defs demo_simps
      model_dump_def opt_field_def demo_construct_invalid_request)

lemma demo_model_validate_nobody:
  "model_validate demo_provider
     (demo_params(''client_id'' \<mapsto> PStr ''nobody'', ''response_type'' \<mapsto> PStr ''token'')) =
   Inl [ErrorDetails [''response_type''] ''literal_error'']"
  by (simp add: model_validate_def field_defs demo_simps)

lemma demo_model_validate_token_only:
  "model_validate demo_provider (demo_params(''response_type'' \<mapsto> PStr ''token'')) =
   Inl [ErrorDetails [''response_type''] ''literal_error'']"
  by (simp add: model_validate_def field_defs demo_simps)

lemma demo_model_validate_admin:
  "model_validate demo_provider (demo_params(''scope'' \<mapsto> PStr ''admin'')) =
     Inr \<lparr>ar_client_id = ''c1'', ar_redirect_uri = Some ''https://app.example/cb?foo=1'',
          ar_response_type = ''code'',
          ar_code_challenge = ''E9Melhoa2OwvFrEMTJguCHaoeK1t8URWbuGJSstw-cM'',
          ar_code_challenge_method = ''S256'', ar_state = Some ''xyz'',
          ar_scope = Some ''admin''\<rparr>"
  by (simp add: model_validate_def field_defs demo_simps)

subsection \<open>Redirect exactly when client and redirect URI are established\<close>

text \<open>
  Claim C1. Whenever \<open>handle\<close> returns a response, the response is a redirect if and
  only if, in the final values of the local variables, \<open>client\<close> holds a client object
  and \<open>redirect_uri\<close> holds the URI that this client's \<open>validate_redirect_uri\<close>
  returned for the redirect URI of the raw parameters; the client object is one the
  provider resolved from the raw \<open>client_id\<close>. A redirect has status 302 and goes either
  to that validated URI with the error fields appended (the error router) or to the
  location the delegate returned for this client and this URI (the success path); every
  other response is the JSON error body with status 400.
\<close>

theorem redirect_iff_established:
  assumes "handle_locals env w req = (Inr r, vs, w')"
  shows "(is_redirect r \<longleftrightarrow> established env vs) \<and> resolved env vs \<and>
         (case r of
            RedirectResponse location st hs \<Rightarrow>
              st = 302 \<and> (error_target vs location \<or> delegate_target env vs w' location)
          | PydanticJSONResponse st er hs \<Rightarrow> st = 400)"
proof -
  have inv: "uri_inv env vs" and res: "resolved env vs"
    using handle_locals_inv[OF assms] by simp_all
  have est: "established env vs \<longleftrightarrow> (\<exists>c u. client vs = CClient c \<and> redirect_uri vs = Some u)"
    by (rule established_iff[OF inv])
  from handle_locals_response[OF assms] show ?thesis
  proof
    assume "\<exists>er. r = emit vs er"
    then obtain er where r: "r = emit vs er" ..
    show ?thesis
    proof (cases "is_redirect r")
      case True
      then have "is_redirect (emit vs er)" by (simp add: r)
      then have "\<exists>c u. client vs = CClient c \<and> redirect_uri vs = Some u"
        by (simp add: emit_redirect_iff)
      then obtain c u where cu: "client vs = CClient c" "redirect_uri vs = Some u"
        by auto
      have r': "r = RedirectResponse (construct_redirect_uri u (model_dump er)) 302
                  [(''Cache-Control'', ''no-store'')]"
        by (simp add: r emit_redirect[OF cu(2) cu(1)])
      have "error_target vs (construct_redirect_uri u (model_dump er))"
        unfolding error_target_def using cu(2) by auto
      moreover have "established env vs" using est cu by simp
      ultimately show ?thesis using res by (simp add: r' is_redirect_def)
    next
      case False
      then have nr: "\<not> is_redirect (emit vs er)" by (simp add: r)
      have r': "r = PydanticJSONResponse 400 er [(''Cache-Control'', ''no-store'')]"
        by (simp add: r emit_direct[OF nr])
      have "\<not> established env vs" using nr est by (simp add: emit_redirect_iff)
      then show ?thesis using res by (simp add: r' is_redirect_def)
    qed
  next
    assume "\<exists>location. delegate_target env vs w' location \<and>
            r = RedirectResponse location 302 [(''Cache-Control'', ''no-store'')]"
    then obtain location where h: "delegate_target env vs w' location"
      and r': "r = RedirectResponse location 302 [(''Cache-Control'', ''no-store'')]"
      by auto
    have "established env vs" using est h by (auto simp: delegate_target_def)
    then show ?thesis using res h by (simp add: r' is_redirect_def)
  qed
qed

theorem redirect_iff_established_witness:
  "handle_locals demo_provider 0 (get_request demo_params) =
     (Inr (RedirectResponse ''https://app.example/cb?foo=1&code=abc&state=xyz'' 302
             [(''Cache-Control'', ''no-store'')]),
      \<lparr>state = Some ''xyz'', redirect_uri = Some ''https://app.example/cb?foo=1'',
        client = CClient demo_c1, params = Some demo_params\<rparr>, 0) \<and>
   is_redirect (RedirectResponse ''https://app.example/cb?foo=1&code=abc&state=xyz'' 302
                  [(''Cache-Control'', ''no-store'')]) \<and>
   established demo_provider
     \<lparr>state = Some ''xyz'', redirect_uri = Some ''https://app.example/cb?foo=1'',
       client = CClient demo_c1, params = Some demo_params\<rparr>"
  using redirect_iff_established[OF demo_handle_ok] demo_handle_ok
  by (simp add: is_redirect_def)

subsection \<open>Errors that escape the handler\<close>

text \<open>
  Claim C2. The claim fails on the code: for a request of the registered client \<open>c1\<close>
  whose \<open>redirect_uri\<close> is present and is not a valid URL, schema validation fails,
  the error router resolves the client and then calls
  \<open>AnyHttpUrlModel.model_validate\<close> outside its \<open>try\<close>; the \<open>ValidationError\<close>
  leaves \<open>error_response\<close>, is caught by \<open>except Exception\<close>, and is raised again by
  the second call of \<open>error_response\<close>, so it leaves \<open>handle\<close>.
\<close>

theorem handle_raises_on_invalid_redirect_uri:
  "handle demo_provider 0
     (get_request (demo_params(''redirect_uri'' \<mapsto> PStr ''not a url''))) =
   Inl (ValidationError [ErrorDetails [] ''url_parsing''])"
  by (simp add: handle_def handler_defs demo_model_validate_bad_uri router_defs demo_simps)

subsection \<open>Status of direct error responses\<close>

text \<open>
  Claim C9. Every response of \<open>handle\<close> that is not a redirect is the JSON error
  response with status code 400 and the header \<open>Cache-Control: no-store\<close>, whatever
  its error code; this includes \<open>server_error\<close> after an unexpected fault.
\<close>

theorem direct_error_status_400:
  assumes "handle env w req = Inr r" and "\<not> is_redirect r"
  shows "status_code r = 400 \<and>
         r = PydanticJSONResponse 400 (content r) [(''Cache-Control'', ''no-store'')]"
proof -
  obtain vs w' where h: "handle_locals env w req = (Inr r, vs, w')"
    using handle_locals_of_handle[OF assms(1)] by auto
  from handle_locals_response[OF h] assms(2) obtain er where r: "r = emit vs er"
    by (auto simp: is_redirect_def)
  from assms(2) have "\<not> is_redirect (emit vs er)" by (simp add: r)
  from emit_direct[OF this] show ?thesis by (simp add: r)
qed

theorem direct_error_status_400_witness:
  "handle demo_provider 0
     \<lparr>http_method = ''PUT'', query_params = demo_params,
       form = Inl (OtherException ''bad body'')\<rparr> =
   Inr (PydanticJSONResponse 400
          \<lparr>er_error = server_error,
            er_error_description = Some ''An unexpected error occurred'',
            er_error_uri = None, er_state = None\<rparr>
          [(''Cache-Control'', ''no-store'')]) \<and>
   status_code (PydanticJSONResponse 400
          \<lparr>er_error = server_error,
            er_error_description = Some ''An unexpected error occurred'',
            er_error_uri = None, er_state = None\<rparr>
          [(''Cache-Control'', ''no-store'')]) = 400"
  using direct_error_status_400[OF demo_handle_form_fails] demo_handle_form_fails
  by (simp add: is_redirect_def)

subsection \<open>Requests with a method other than \<open>GET\<close>\<close>

text \<open>
  Claim C10. For a request whose method is not \<open>GET\<close>, whatever it is, the handler
  takes its parameters from the form body: the variable \<open>params\<close> ends as the parsed
  form (or \<open>None\<close> when parsing the form raised), and the outcome is the same for
  every other method that is not \<open>GET\<close> and for every query string. No method is
  answered differently from \<open>POST\<close>.
\<close>

theorem non_get_reads_form:
  assumes "http_method req \<noteq> ''GET''" and "m \<noteq> ''GET''"
  shows "handle env w req = handle env w (req\<lparr>http_method := m, query_params := q\<rparr>) \<and>
         params (fst (snd (handle_locals env w req))) =
           (case form req of Inl e \<Rightarrow> None | Inr ps \<Rightarrow> Some ps)"
proof -
  have rp: "request_params req = form req"
    using assms(1) by (simp add: request_params_def)
  have "request_params (req\<lparr>http_method := m, query_params := q\<rparr>) = form req"
    using assms(2) by (simp add: request_params_def)
  then have "handle_locals env w req =
      handle_locals env w (req\<lparr>http_method := m, query_params := q\<rparr>)"
    using rp by (intro handle_locals_request_params) simp
  then have eq: "handle env w req = handle env w (req\<lparr>http_method := m, query_params := q\<rparr>)"
    by (simp add: handle_def)
  obtain res vs w' where h: "handle_locals env w req = (res, vs, w')"
    by (cases "handle_locals env w req") auto
  have "params vs = (case form req of Inl e \<Rightarrow> None | Inr ps \<Rightarrow> Some ps)"
    using handle_locals_params[OF h] rp by simp
  then have "params (fst (snd (handle_locals env w req))) =
           (case form req of Inl e \<Rightarrow> None | Inr ps \<Rightarrow> Some ps)"
    by (simp add: h)
  with eq show ?thesis by simp
qed

theorem non_get_reads_form_witness:
  "''DELETE'' \<noteq> ''GET'' \<and>
   handle demo_provider 0
     \<lparr>http_method = ''DELETE'', query_params = Map.empty, form = Inr demo_params\<rparr> =
   handle demo_provider 0
     \<lparr>http_method = ''POST'', query_params = demo_params, form = Inr demo_params\<rparr> \<and>
   params (fst (snd (handle_locals demo_provider 0
     \<lparr>http_method = ''DELETE'', query_params = Map.empty, form = Inr demo_params\<rparr>))) =
   Some demo_params"
  using non_get_reads_form[of
      "\<lparr>http_method = ''DELETE'', query_params = Map.empty, form = Inr demo_params\<rparr>"
      "''POST''" demo_provider 0 demo_params]
  by simp

subsection \<open>The error code of a schema violation\<close>

text \<open>
  Claim C7. When \<open>response_type\<close> is present but is not the string \<open>code\<close>,
  schema validation fails, whatever the other fields are, and the error code that
  \<open>handle\<close> derives from the validation errors is \<open>unsupported_response_type\<close>;
  for every other failure of schema validation the error code is
  \<open>invalid_request\<close>. The handler enters the error router with exactly this code, and
  a response that this call of the router returns carries it.
\<close>

theorem schema_error_code:
  assumes "request_params req = Inr ps"
  shows "(response_type_mismatch ps \<longrightarrow> (\<exists>errs. model_validate env ps = Inl errs)) \<and>
         (\<forall>errs. model_validate env ps = Inl errs \<longrightarrow>
            error_code_of errs =
              (if response_type_mismatch ps then unsupported_response_type
               else invalid_request) \<and>
            handle_try env w req locals0 =
              error_response env w
                \<lparr>state = best_effort_extract_string ''state'' (Some ps), redirect_uri = None,
                  client = CNone, params = Some ps\<rparr>
                (if response_type_mismatch ps then unsupported_response_type
                 else invalid_request)
                (Some (stringify_pydantic_error env errs)) True \<and>
            (\<forall>r vs w'. handle_try env w req locals0 = (Inr r, vs, w') \<longrightarrow>
               r = emit vs
                     \<lparr>er_error = (if response_type_mismatch ps then unsupported_response_type
                                   else invalid_request),
                       er_error_description = Some (stringify_pydantic_error env errs),
                       er_error_uri = None, er_state = state vs\<rparr>))"
proof (intro conjI allI impI)
  assume "response_type_mismatch ps"
  then show "\<exists>errs. model_validate env ps = Inl errs" by (rule mismatch_fails)
next
  fix errs assume e: "model_validate env ps = Inl errs"
  show c: "error_code_of errs =
      (if response_type_mismatch ps then unsupported_response_type else invalid_request)"
    by (rule model_validate_code[OF e])
  show t: "handle_try env w req locals0 =
      error_response env w
        \<lparr>state = best_effort_extract_string ''state'' (Some ps), redirect_uri = None,
          client = CNone, params = Some ps\<rparr>
        (if response_type_mismatch ps then unsupported_response_type else invalid_request)
        (Some (stringify_pydantic_error env errs)) True"
    using handle_try_schema_error[OF assms e, of w] by (simp only: c)
  fix r vs w' assume "handle_try env w req locals0 = (Inr r, vs, w')"
  then show "r = emit vs
                     \<lparr>er_error = (if response_type_mismatch ps then unsupported_response_type
                                   else invalid_request),
                       er_error_description = Some (stringify_pydantic_error env errs),
                       er_error_uri = None, er_state = state vs\<rparr>"
    unfolding t by (rule error_response_emit)
qed

theorem schema_error_code_witness:
  "request_params
     (get_request (demo_params(''response_type'' \<mapsto> PStr ''token'', ''code_challenge'' := None))) =
   Inr (demo_params(''response_type'' \<mapsto> PStr ''token'', ''code_challenge'' := None)) \<and>
   response_type_mismatch
     (demo_params(''response_type'' \<mapsto> PStr ''token'', ''code_challenge'' := None)) \<and>
   error_code_of [ErrorDetails [''response_type''] ''literal_error'',
                  ErrorDetails [''code_challenge''] ''missing''] = unsupported_response_type \<and>
   handle_try demo_provider 0
     (get_request (demo_params(''response_type'' \<mapsto> PStr ''token'', ''code_challenge'' := None)))
     locals0 =
   error_response demo_provider 0
     \<lparr>state = Some ''xyz'', redirect_uri = None, client = CNone,
       params = Some (demo_params(''response_type'' \<mapsto> PStr ''token'', ''code_challenge'' := None))\<rparr>
     unsupported_response_type (Some ''invalid'') True"
proof -
  have p: "request_params
     (get_request (demo_params(''response_type'' \<mapsto> PStr ''token'', ''code_challenge'' := None))) =
   Inr (demo_params(''response_type'' \<mapsto> PStr ''token'', ''code_challenge'' := None))"
    by (simp add: request_params_def get_request_def)
  have m: "response_type_mismatch
     (demo_params(''response_type'' \<mapsto> PStr ''token'', ''code_challenge'' := None))"
    by (simp add: response_type_mismatch_def)
  show ?thesis
    using schema_error_code[OF p, of demo_provider 0] demo_model_validate_token p m
    by (simp add: best_effort_extract_string_def demo_simps)
qed

subsection \<open>A request that misses a required field\<close>

text \<open>
  Claim C3, as stated, fails on the code: a request of the registered client \<open>c1\<close>
  with a registered \<open>redirect_uri\<close> that misses \<open>code_challenge\<close> is answered by a
  302 redirect, because the error router recovers the client and the redirect URI from
  the raw parameters.
\<close>

theorem missing_field_redirects:
  "missing_required (demo_params(''code_challenge'' := None)) \<and>
   handle demo_provider 0 (get_request (demo_params(''code_challenge'' := None))) =
   Inr (RedirectResponse
      ''https://app.example/cb?foo=1&error=invalid_request&error_description=invalid&state=xyz''
      302 [(''Cache-Control'', ''no-store'')])"
  by (simp add: missing_required_def handle_def handle_locals_def demo_handle_try_no_challenge)

text \<open>
  Claim C3, amended. For a request that misses a required field, when the error router
  returns a response on its first call, that response is the response of \<open>handle\<close>;
  its error is \<open>invalid_request\<close>, or \<open>unsupported_response_type\<close> when
  \<open>response_type\<close> is present and is not \<open>code\<close>; its state is the string under
  \<open>state\<close> in the raw parameters, if there is one; and it is a redirect exactly when
  the router has established a client and a redirect URI validated for it, and the
  direct JSON response otherwise.
\<close>

theorem missing_field_response:
  assumes "request_params req = Inr ps" and "missing_required ps"
    and "handle_try env w req locals0 = (Inr r, vs, w')"
  shows "handle env w req = Inr r \<and>
         (\<exists>desc. r = emit vs
            \<lparr>er_error = (if response_type_mismatch ps then unsupported_response_type
                          else invalid_request),
              er_error_description = Some desc, er_error_uri = None,
              er_state = best_effort_extract_string ''state'' (Some ps)\<rparr>) \<and>
         (is_redirect r \<longleftrightarrow> established env vs)"
proof -
  obtain errs where e: "model_validate env ps = Inl errs"
    using missing_fails[OF assms(2)] by auto
  let ?vs0 = "\<lparr>state = best_effort_extract_string ''state'' (Some ps), redirect_uri = None,
               client = CNone, params = Some ps\<rparr> :: 'a locals"
  have t: "error_response env w ?vs0 (error_code_of errs)
             (Some (stringify_pydantic_error env errs)) True = (Inr r, vs, w')"
    using handle_try_schema_error[OF assms(1) e, of w] assms(3) by simp
  have st: "state vs = best_effort_extract_string ''state'' (Some ps)"
    using error_response_state[OF t] by simp
  have r: "r = emit vs
            \<lparr>er_error = (if response_type_mismatch ps then unsupported_response_type
                          else invalid_request),
              er_error_description = Some (stringify_pydantic_error env errs),
              er_error_uri = None,
              er_state = best_effort_extract_string ''state'' (Some ps)\<rparr>"
    using error_response_emit[OF t] by (simp add: st model_validate_code[OF e])
  have "is_redirect r \<longleftrightarrow> (\<exists>c u. client vs = CClient c \<and> redirect_uri vs = Some u)"
    by (subst r) (rule emit_redirect_iff)
  then have "is_redirect r \<longleftrightarrow> established env vs"
    using established_iff[OF handle_try_inv[OF assms(3)]] by simp
  moreover have "handle env w req = Inr r" by (rule handle_of_try[OF assms(3)])
  ultimately show ?thesis using r by auto
qed

theorem missing_field_response_witness:
  "missing_required (demo_params(''code_challenge'' := None)) \<and>
   is_redirect (RedirectResponse
      ''https://app.example/cb?foo=1&error=invalid_request&error_description=invalid&state=xyz''
      302 [(''Cache-Control'', ''no-store'')]) \<and>
   established demo_provider
     \<lparr>state = Some ''xyz'', redirect_uri = Some ''https://app.example/cb?foo=1'',
      client = CClient demo_c1, params = Some (demo_params(''code_challenge'' := None))\<rparr>"
proof -
  have p: "request_params (get_request (demo_params(''code_challenge'' := None))) =
             Inr (demo_params(''code_challenge'' := None))"
    by (simp add: request_params_def get_request_def)
  have m: "missing_required (demo_params(''code_challenge'' := None))"
    by (simp add: missing_required_def)
  show ?thesis
    using missing_field_response[OF p m demo_handle_try_no_challenge] m
    by (simp add: is_redirect_def)
qed

subsection \<open>A client identifier that does not resolve\<close>

text \<open>
  Claim C4, as stated, fails on the code: for a request whose \<open>client_id\<close> does not
  resolve and whose \<open>response_type\<close> is \<open>token\<close>, the direct response carries
  \<open>unsupported_response_type\<close>, not \<open>invalid_request\<close>, because schema validation
  comes before the resolution of the client.
\<close>

theorem unknown_client_not_invalid_request:
  "get_client demo_provider 0 ''nobody'' = (Inr None, 0) \<and>
   handle demo_provider 0
     (get_request
        (demo_params(''client_id'' \<mapsto> PStr ''nobody'', ''response_type'' \<mapsto> PStr ''token''))) =
   Inr (PydanticJSONResponse 400
          \<lparr>er_error = unsupported_response_type, er_error_description = Some ''invalid'',
            er_error_uri = None, er_state = Some ''xyz''\<rparr>
          [(''Cache-Control'', ''no-store'')]) \<and>
   unsupported_response_type \<noteq> invalid_request"
  by (simp add: handle_def handler_defs demo_model_validate_nobody router_defs demo_simps)

text \<open>
  Claim C4, amended. For every request whose \<open>client_id\<close> is a string that the
  provider does not resolve, the response is the direct JSON error with status 400,
  never a redirect, whatever \<open>redirect_uri\<close> was supplied; it echoes the state of the
  raw parameters, and its error is \<open>invalid_request\<close>, or
  \<open>unsupported_response_type\<close> when \<open>response_type\<close> is present and is not \<open>code\<close>.
\<close>

theorem unknown_client_direct:
  assumes "request_params req = Inr ps" and "ps ''client_id'' = Some (PStr cid)"
    and "get_client env w cid = (Inr None, w1)"
  shows "\<exists>desc. handle env w req =
           Inr (PydanticJSONResponse 400
                  \<lparr>er_error = (if response_type_mismatch ps then unsupported_response_type
                                else invalid_request),
                    er_error_description = Some desc, er_error_uri = None,
                    er_state = best_effort_extract_string ''state'' (Some ps)\<rparr>
                  [(''Cache-Control'', ''no-store'')])"
proof (cases "model_validate env ps")
  case (Inl errs)
  let ?vs = "\<lparr>state = best_effort_extract_string ''state'' (Some ps), redirect_uri = None,
               client = CNone, params = Some ps\<rparr> :: 'a locals"
  let ?vs1 = "?vs\<lparr>client := (if cid = [] then CEmptyStr else CNone)\<rparr>"
  have lc: "load_client env w ?vs True = (Inr ?vs1, if cid = [] then w else w1)"
    using assms(2,3) by (simp add: load_client_def best_effort_extract_string_def)
  have "handle_try env w req locals0 =
      error_response env w ?vs (error_code_of errs)
        (Some (stringify_pydantic_error env errs)) True"
    by (rule handle_try_schema_error[OF assms(1) Inl])
  also have "\<dots> =
      (Inr (PydanticJSONResponse 400
              \<lparr>er_error = error_code_of errs,
                er_error_description = Some (stringify_pydantic_error env errs),
                er_error_uri = None, er_state = state ?vs1\<rparr>
              [(''Cache-Control'', ''no-store'')]), ?vs1, if cid = [] then w else w1)"
    by (rule error_response_direct[OF lc]) simp_all
  finally have "handle env w req =
      Inr (PydanticJSONResponse 400
              \<lparr>er_error = error_code_of errs,
                er_error_description = Some (stringify_pydantic_error env errs),
                er_error_uri = None, er_state = state ?vs1\<rparr>
              [(''Cache-Control'', ''no-store'')])"
    by (rule handle_of_try)
  then show ?thesis
    by (simp add: model_validate_code[OF Inl])
next
  case (Inr ar)
  have cid: "ar_client_id ar = cid"
    using model_validate_Inr(3)[OF Inr] assms(2) by simp
  have st: "ar_state ar = best_effort_extract_string ''state'' (Some ps)"
    by (rule model_validate_Inr(2)[OF Inr])
  have nm: "\<not> response_type_mismatch ps"
    using model_validate_Inr(4)[OF Inr] by (simp add: response_type_mismatch_def)
  let ?vs = "\<lparr>state = ar_state ar, redirect_uri = None, client = CNone,
               params = Some ps\<rparr> :: 'a locals"
  let ?desc = "''Client ID '' @ [CHR 0x27] @ ar_client_id ar @ [CHR 0x27] @ '' not found''"
  have lc: "load_client env w1 ?vs False = (Inr ?vs, w1)"
    by (simp add: load_client_def)
  have "handle_try env w req locals0 =
      error_response env w1 ?vs invalid_request (Some ?desc) False"
    using handle_try_unknown_client[OF assms(1) Inr] assms(3) cid by simp
  also have "\<dots> =
      (Inr (PydanticJSONResponse 400
              \<lparr>er_error = invalid_request, er_error_description = Some ?desc,
                er_error_uri = None, er_state = state ?vs\<rparr>
              [(''Cache-Control'', ''no-store'')]), ?vs, w1)"
    by (rule error_response_direct[OF lc]) (simp_all add: st)
  finally have "handle env w req =
      Inr (PydanticJSONResponse 400
              \<lparr>er_error = invalid_request, er_error_description = Some ?desc,
                er_error_uri = None, er_state = state ?vs\<rparr>
              [(''Cache-Control'', ''no-store'')])"
    by (rule handle_of_try)
  then show ?thesis
    using nm by (simp add: st)
qed

theorem unknown_client_direct_witness:
  "get_client demo_provider 0 ''nobody'' = (Inr None, 0) \<and>
   (\<exists>desc. handle demo_provider 0
     (get_request (demo_params(''client_id'' \<mapsto> PStr ''nobody''))) =
   Inr (PydanticJSONResponse 400
          \<lparr>er_error = invalid_request, er_error_description = Some desc,
            er_error_uri = None, er_state = Some ''xyz''\<rparr>
          [(''Cache-Control'', ''no-store'')]))"
  using unknown_client_direct[of "get_request (demo_params(''client_id'' \<mapsto> PStr ''nobody''))"
      "demo_params(''client_id'' \<mapsto> PStr ''nobody'')" "''nobody''" demo_provider 0 0]
  by (simp add: request_params_def get_request_def demo_simps response_type_mismatch_def
      best_effort_extract_string_def)

subsection \<open>A failure of the client resolver during recovery\<close>

text \<open>
  Claim C5, as stated, fails on the code: when the provider's \<open>get_client\<close> raises
  during the recovery step, the exception leaves \<open>error_response\<close>; and when it
  raises in the first call of the router and in the call made by the catch-all clause,
  it leaves \<open>handle\<close>.
\<close>

theorem resolver_failure_escapes:
  "fst (error_response demo_provider 1
     \<lparr>state = None, redirect_uri = None, client = CNone, params = Some demo_params\<rparr>
     server_error (Some ''An unexpected error occurred'') True) =
   Inl (OtherException ''client store unavailable'') \<and>
   handle demo_provider 2 (get_request (demo_params(''response_type'' \<mapsto> PStr ''token''))) =
   Inl (OtherException ''client store unavailable'')"
  by (simp add: handle_def handler_defs demo_model_validate_token_only router_defs demo_simps)

text \<open>
  Claim C5, amended. During error recovery, when no client is known yet and the caller
  permits recovery, the router calls the client resolver with the raw \<open>client_id\<close>, if
  that is a non-empty string; an exception of the resolver is not swallowed: it is
  raised by \<open>error_response\<close>, with \<open>client\<close> and the other local variables
  unchanged.
\<close>

theorem resolver_failure_propagates:
  assumes "client vs = CNone"
    and "best_effort_extract_string ''client_id'' (params vs) = Some cid" and "cid \<noteq> []"
    and "get_client env w cid = (Inl e, w1)"
  shows "error_response env w vs code desc True = (Inl e, vs, w1)"
  using assms by (simp add: error_response_def load_client_def)

theorem resolver_failure_propagates_witness:
  "get_client demo_provider 1 ''c1'' = (Inl (OtherException ''client store unavailable''), 0) \<and>
   error_response demo_provider 1
     \<lparr>state = None, redirect_uri = None, client = CNone, params = Some demo_params\<rparr>
     invalid_request None True =
   (Inl (OtherException ''client store unavailable''),
    \<lparr>state = None, redirect_uri = None, client = CNone, params = Some demo_params\<rparr>, 0)"
  using resolver_failure_propagates[of
      "\<lparr>state = None, redirect_uri = None, client = CNone, params = Some demo_params\<rparr>"
      "''c1''" demo_provider 1 "OtherException ''client store unavailable''" 0
      invalid_request None]
  by (simp add: best_effort_extract_string_def demo_simps)

subsection \<open>A rejected scope\<close>

text \<open>
  Claim C6. When the request passes schema validation, the client resolves, the
  redirect URI validates and the scope is rejected, \<open>handle\<close> returns a 302 redirect
  to the composition of the validated redirect URI with the fields
  \<open>error=invalid_scope\<close>, \<open>error_description\<close> and, if the request has one, the
  original \<open>state\<close>; where the validated URI has a query string, the location has
  this query string followed by \<open>&\<close> and the encoded new fields, and for an HTTP
  base of the form \<open>http_base\<close> it is that URI itself followed by them.
  The composition is \<open>construct_redirect_uri\<close>, modelled from the specification.
\<close>

theorem scope_rejected_redirect:
  assumes "request_params req = Inr ps" and "model_validate env ps = Inr ar"
    and "get_client env w (ar_client_id ar) = (Inr (Some c), w1)"
    and "validate_redirect_uri env c (ar_redirect_uri ar) = Inr u"
    and "validate_scope env c (ar_scope ar) = Inl (InvalidScopeError m)"
  shows "handle env w req =
           Inr (RedirectResponse
                  (construct_redirect_uri u
                     (scope_error_fields m (best_effort_extract_string ''state'' (Some ps))))
                  302 [(''Cache-Control'', ''no-store'')]) \<and>
         urlencode (scope_error_fields m (best_effort_extract_string ''state'' (Some ps))) =
           ''error=invalid_scope&error_description='' @ quote_plus m @
           (case best_effort_extract_string ''state'' (Some ps) of
              None \<Rightarrow> [] | Some s \<Rightarrow> ''&state='' @ quote_plus s) \<and>
         (query (urlparse u) \<noteq> [] \<longrightarrow>
            (\<exists>pre post.
               construct_redirect_uri u
                 (scope_error_fields m (best_effort_extract_string ''state'' (Some ps))) =
               pre @ ''?'' @ query (urlparse u) @ ''&'' @
               urlencode (scope_error_fields m (best_effort_extract_string ''state'' (Some ps))) @
               post)) \<and>
         (http_base sch nl p q \<and> u = sch @ ''://'' @ nl @ p @ ''?'' @ q \<longrightarrow>
            construct_redirect_uri u
              (scope_error_fields m (best_effort_extract_string ''state'' (Some ps))) =
            u @ ''&'' @
            urlencode (scope_error_fields m (best_effort_extract_string ''state'' (Some ps))))"
proof -
  let ?st = "best_effort_extract_string ''state'' (Some ps)"
  let ?vs = "\<lparr>state = ar_state ar, redirect_uri = Some u, client = CClient c,
               params = Some ps\<rparr> :: 'a locals"
  have st: "ar_state ar = ?st" by (rule model_validate_Inr(2)[OF assms(2)])
  have "handle_try env w req locals0 = error_response env w1 ?vs invalid_scope (Some m) True"
    by (rule handle_try_scope_rejected[OF assms])
  also have "\<dots> =
     (Inr (RedirectResponse
             (construct_redirect_uri u
                (model_dump \<lparr>er_error = invalid_scope, er_error_description = Some m,
                              er_error_uri = None, er_state = state ?vs\<rparr>))
             302 [(''Cache-Control'', ''no-store'')]), ?vs, w1)"
    by (rule error_response_established) (simp_all add: st)
  finally have "handle env w req =
      Inr (RedirectResponse
             (construct_redirect_uri u
                (model_dump \<lparr>er_error = invalid_scope, er_error_description = Some m,
                              er_error_uri = None, er_state = state ?vs\<rparr>))
             302 [(''Cache-Control'', ''no-store'')])"
    by (rule handle_of_try)
  then have h: "handle env w req =
           Inr (RedirectResponse (construct_redirect_uri u (scope_error_fields m ?st))
                  302 [(''Cache-Control'', ''no-store'')])"
    by (simp add: model_dump_def opt_field_def scope_error_fields_def st)
  show ?thesis
  proof (intro conjI impI)
    show "handle env w req =
           Inr (RedirectResponse (construct_redirect_uri u (scope_error_fields m ?st))
                  302 [(''Cache-Control'', ''no-store'')])"
      by (rule h)
    show "urlencode (scope_error_fields m ?st) =
           ''error=invalid_scope&error_description='' @ quote_plus m @
           (case ?st of None \<Rightarrow> [] | Some s \<Rightarrow> ''&state='' @ quote_plus s)"
      unfolding scope_error_fields_def by (rule urlencode_scope_error)
  next
    assume "query (urlparse u) \<noteq> []"
    then show "\<exists>pre post.
               construct_redirect_uri u (scope_error_fields m ?st) =
               pre @ ''?'' @ query (urlparse u) @ ''&'' @
               urlencode (scope_error_fields m ?st) @ post"
      by (rule construct_keeps_query)
  next
    assume a: "http_base sch nl p q \<and> u = sch @ ''://'' @ nl @ p @ ''?'' @ q"
    then have b: "http_base sch nl p q" and u: "u = sch @ ''://'' @ nl @ p @ ''?'' @ q"
      by simp_all
    show "construct_redirect_uri u (scope_error_fields m ?st) =
            u @ ''&'' @ urlencode (scope_error_fields m ?st)"
      unfolding u using construct_redirect_uri_http_base[OF b] by simp
  qed
qed

lemma demo_http_base: "http_base ''https'' ''app.example'' ''/cb'' ''foo=1''"
  by (simp add: http_base_def)

theorem scope_rejected_redirect_witness:
  "validate_scope demo_provider demo_c1 (Some ''admin'') =
     Inl (InvalidScopeError ''Client was not registered with scope'') \<and>
   http_base ''https'' ''app.example'' ''/cb'' ''foo=1'' \<and>
   handle demo_provider 0 (get_request (demo_params(''scope'' \<mapsto> PStr ''admin''))) =
   Inr (RedirectResponse
     ''https://app.example/cb?foo=1&error=invalid_scope&error_description=Client+was+not+registered+with+scope&state=xyz''
     302 [(''Cache-Control'', ''no-store'')])"
proof -
  have p: "request_params (get_request (demo_params(''scope'' \<mapsto> PStr ''admin''))) =
             Inr (demo_params(''scope'' \<mapsto> PStr ''admin''))"
    by (simp add: request_params_def get_request_def)
  have g: "get_client demo_provider 0
             (ar_client_id \<lparr>ar_client_id = ''c1'', ar_redirect_uri = Some ''https://app.example/cb?foo=1'',
          ar_response_type = ''code'',
          ar_code_challenge = ''E9Melhoa2OwvFrEMTJguCHaoeK1t8URWbuGJSstw-cM'',
          ar_code_challenge_method = ''S256'', ar_state = Some ''xyz'',
          ar_scope = Some ''admin''\<rparr>) = (Inr (Some demo_c1), 0)"
    by (simp add: demo_simps)
  note t = scope_rejected_redirect[OF p demo_model_validate_admin g,
        of "''https://app.example/cb?foo=1''" "''Client was not registered with scope''"
           "''https''" "''app.example''" "''/cb''" "''foo=1''"]
  have f: "scope_error_fields ''Client was not registered with scope'' (Some ''xyz'') =
     [(''error'', ''invalid_scope''),
      (''error_description'', ''Client was not registered with scope''),
      (''state'', ''xyz'')]"
    by (simp add: scope_error_fields_def opt_field_def)
  show ?thesis
    using t demo_http_base
    by (simp add: demo_simps best_effort_extract_string_def f demo_construct_invalid_scope)
qed

subsection \<open>Appending the error fields to a redirect URI\<close>

text \<open>
  Claim C8. \<open>create_error_redirect\<close> of \<open>https://app.example/cb?foo=1\<close> and the
  error response with error \<open>invalid_scope\<close> and state \<open>xyz\<close> is
  \<open>https://app.example/cb?foo=1&error=invalid_scope&state=xyz\<close>. For every error
  response and every HTTP base of the form \<open>http_base\<close> the result is the base
  itself, unchanged, followed by \<open>&\<close> and the encoded fields; for every base with a
  query string the result has that query string unchanged, followed by \<open>&\<close> and the
  encoded fields; the fields are those that are not \<open>None\<close>, in the order of
  declaration; and a field that the base already has is appended again.
\<close>

theorem create_error_redirect_appends:
  "create_error_redirect ''https://app.example/cb?foo=1''
     (ErrorResponse \<lparr>er_error = invalid_scope, er_error_description = None,
                      er_error_uri = None, er_state = Some ''xyz''\<rparr>) =
   ''https://app.example/cb?foo=1&error=invalid_scope&state=xyz'' \<and>
   (http_base sch nl p q \<longrightarrow>
      create_error_redirect (sch @ ''://'' @ nl @ p @ ''?'' @ q) (ErrorResponse r) =
        sch @ ''://'' @ nl @ p @ ''?'' @ q @ ''&'' @ urlencode (model_dump r)) \<and>
   (query (urlparse uri) \<noteq> [] \<longrightarrow>
      (\<exists>pre post. create_error_redirect uri (ErrorResponse r) =
         pre @ ''?'' @ query (urlparse uri) @ ''&'' @ urlencode (model_dump r) @ post)) \<and>
   model_dump \<lparr>er_error = e, er_error_description = None, er_error_uri = None,
                er_state = Some s\<rparr> = [(''error'', code_str e), (''state'', s)] \<and>
   create_error_redirect ''https://app.example/cb?error=old''
     (ErrorResponse \<lparr>er_error = invalid_scope, er_error_description = None,
                      er_error_uri = None, er_state = Some ''xyz''\<rparr>) =
   ''https://app.example/cb?error=old&error=invalid_scope&state=xyz''"
proof (intro conjI impI)
  show "create_error_redirect ''https://app.example/cb?foo=1''
     (ErrorResponse \<lparr>er_error = invalid_scope, er_error_description = None,
                      er_error_uri = None, er_state = Some ''xyz''\<rparr>) =
   ''https://app.example/cb?foo=1&error=invalid_scope&state=xyz''"
    by (rule demo_create_example)
  show "model_dump \<lparr>er_error = e, er_error_description = None, er_error_uri = None,
                er_state = Some s\<rparr> = [(''error'', code_str e), (''state'', s)]"
    by (simp add: model_dump_def opt_field_def)
  show "create_error_redirect ''https://app.example/cb?error=old''
     (ErrorResponse \<lparr>er_error = invalid_scope, er_error_description = None,
                      er_error_uri = None, er_state = Some ''xyz''\<rparr>) =
   ''https://app.example/cb?error=old&error=invalid_scope&state=xyz''"
    by (rule demo_create_old_error)
next
  assume "http_base sch nl p q"
  then show "create_error_redirect (sch @ ''://'' @ nl @ p @ ''?'' @ q) (ErrorResponse r) =
        sch @ ''://'' @ nl @ p @ ''?'' @ q @ ''&'' @ urlencode (model_dump r)"
    by (rule create_error_redirect_http_base)
next
  assume "query (urlparse uri) \<noteq> []"
  from create_error_redirect_query[OF this, of r]
  show "\<exists>pre post. create_error_redirect uri (ErrorResponse r) =
         pre @ ''?'' @ query (urlparse uri) @ ''&'' @ urlencode (model_dump r) @ post"
    by blast
qed

lemma demo_urlencode_example:
  "urlencode (model_dump \<lparr>er_error = invalid_scope, er_error_description = None,
                           er_error_uri = None, er_state = Some ''xyz''\<rparr>) =
   ''error=invalid_scope&state=xyz''"
  by code_simp

theorem create_error_redirect_appends_witness:
  "http_base ''https'' ''app.example'' ''/cb'' ''foo=1'' \<and>
   query (urlparse ''https://app.example/cb?foo=1'') \<noteq> [] \<and>
   create_error_redirect (''https'' @ ''://'' @ ''app.example'' @ ''/cb'' @ ''?'' @ ''foo=1'')
     (ErrorResponse \<lparr>er_error = invalid_scope, er_error_description = None,
                      er_error_uri = None, er_state = Some ''xyz''\<rparr>) =
   ''https://app.example/cb?foo=1'' @ ''&'' @ ''error=invalid_scope&state=xyz'' \<and>
   (\<exists>pre post. create_error_redirect ''https://app.example/cb?foo=1''
        (ErrorResponse \<lparr>er_error = invalid_scope, er_error_description = None,
                      er_error_uri = None, er_state = Some ''xyz''\<rparr>) =
      pre @ ''?'' @ ''foo=1'' @ ''&'' @ ''error=invalid_scope&state=xyz'' @ post)"
proof -
  have q: "query (urlparse ''https://app.example/cb?foo=1'') \<noteq> []"
    by (simp add: demo_urlparse)
  note t = create_error_redirect_appends[of
      "''https''" "''app.example''" "''/cb''" "''foo=1''"
      "\<lparr>er_error = invalid_scope, er_error_description = None,
                      er_error_uri = None, er_state = Some ''xyz''\<rparr>"
      "''https://app.example/cb?foo=1''" invalid_scope "''xyz''"]
  from q demo_http_base t[THEN conjunct2, THEN conjunct1]
    t[THEN conjunct2, THEN conjunct2, THEN conjunct1]
  show ?thesis
    by (simp add: demo_urlparse demo_urlencode_example)
qed

end
